theory Spec2Isabelle
  imports Main "HOL-Library.Word" "HOL-Library.AList"
begin

section \<open>Errors\<close>

text \<open>
  A Go function of this repository returns \<open>(value, error)\<close>; the model returns
  \<open>error + value\<close>. \<open>Err\<close> carries the text of the \<open>fmt.Errorf\<close> call (without the values
  some messages append: the random request id, the token, the cause) or the opaque error
  of an external collaborator;
  \<open>Panic\<close> is a runtime panic (nil dereference, write to a nil map).
\<close>

datatype error = Err string | Panic string

section \<open>Credential cache (package client)\<close>

text \<open>
  \<open>oauth2.Token\<close> with the two fields the code reads. An instant (\<open>time.Time\<close>) and a
  duration are integers counted in nanoseconds; \<open>t.Add(-d).After(now)\<close> is \<open>now < t - d\<close>.
\<close>

record oauthToken =
  AccessToken :: string
  Expiry :: int

definition second :: int where
  "second = 1000000000"

text \<open>
  \<open>cachedIMTokenSource\<close>: the margin and the cached token pointer (\<open>None\<close> is \<open>nil\<close>). The
  wrapped source \<open>newIMTokenSource\<close> is passed to \<open>Token\<close> as the result its own \<open>Token()\<close>
  call gives when it is made.
\<close>

record cachedIMTokenSource =
  marginTime :: int
  token :: "oauthToken option"

definition CachedIMTokenSource :: cachedIMTokenSource where
  "CachedIMTokenSource = \<lparr>marginTime = 30 * second, token = None\<rparr>"

text \<open>
  The part of \<open>cachedIMTokenSource.Token\<close> after the cache check: the call of the wrapped
  source and the three ways out (error without a previous token, error with one, success).
\<close>

definition issueNewToken ::
  "(error + oauthToken) \<Rightarrow> cachedIMTokenSource \<Rightarrow> (error + oauthToken) \<times> cachedIMTokenSource" where
  "issueNewToken newIMTokenSource ts =
     (case newIMTokenSource of
        Inl err \<Rightarrow>
          (case token ts of
             None \<Rightarrow> (Inl err, ts)
           | Some old \<Rightarrow> (Inr old, ts))
      | Inr tok \<Rightarrow> (Inr tok, ts\<lparr>token := Some tok\<rparr>))"

text \<open>
  \<open>cachedIMTokenSource.Token\<close>, one caller at a time. The result is what the caller gets,
  the number of calls made to the wrapped source, and the cache afterwards.
\<close>

definition Token ::
  "(error + oauthToken) \<Rightarrow> int \<Rightarrow> cachedIMTokenSource
     \<Rightarrow> (error + oauthToken) \<times> nat \<times> cachedIMTokenSource" where
  "Token newIMTokenSource now ts =
     (case token ts of
        Some tok \<Rightarrow>
          if now < Expiry tok - marginTime ts then (Inr tok, 0, ts)
          else (let (r, ts') = issueNewToken newIMTokenSource ts in (r, 1, ts'))
      | None \<Rightarrow> (let (r, ts') = issueNewToken newIMTokenSource ts in (r, 1, ts')))"

subsection \<open>Concurrent callers of \<open>Token\<close>\<close>

text \<open>
  Each caller of \<open>Token\<close> is a goroutine with a program point and its local variable
  \<open>token\<close>; the shared state is the mutex \<open>mu\<close> and the field \<open>ts.token\<close>. One step of one
  goroutine runs one statement of the source (the lines are those of the function):
  \<^item> \<open>AtLock\<close>: \<open>ts.mu.Lock()\<close>, enabled only while the mutex is free;
  \<^item> \<open>AtRead\<close>: \<open>token = ts.token\<close>;
  \<^item> \<open>AtUnlock\<close>: \<open>ts.mu.Unlock()\<close>;
  \<^item> \<open>AtCheck\<close>: the test of the cached token, returning it or going on;
  \<^item> \<open>AtIssue\<close>: entering \<open>ts.newIMTokenSource.Token()\<close>;
  \<^item> \<open>Issuing\<close>: the call is in progress; the step is its return;
  \<^item> \<open>AtResult r\<close>: the handling of the call's result \<open>r\<close>, with the write \<open>ts.token = token\<close>;
  \<^item> \<open>Returned r\<close>: the goroutine has returned \<open>r\<close>.
\<close>

datatype loc =
    AtLock | AtRead | AtUnlock | AtCheck | AtIssue | Issuing
  | AtResult "error + oauthToken" | Returned "error + oauthToken"

record goroutine =
  at :: loc
  tokenVar :: "oauthToken option"
  nowVar :: int

record tokenSys =
  mu :: bool
  shared :: cachedIMTokenSource
  issueCalls :: nat
  goroutines :: "goroutine list"

definition stepGoroutine ::
  "(error + oauthToken) \<Rightarrow> nat \<Rightarrow> tokenSys \<Rightarrow> tokenSys option" where
  "stepGoroutine newIMTokenSource i s =
     (if i < length (goroutines s) then
        (let g = goroutines s ! i;
             put = (\<lambda>g' s'. s'\<lparr>goroutines := (goroutines s)[i := g']\<rparr>)
         in case at g of
              AtLock \<Rightarrow> if mu s then None else Some (put (g\<lparr>at := AtRead\<rparr>) (s\<lparr>mu := True\<rparr>))
            | AtRead \<Rightarrow> Some (put (g\<lparr>at := AtUnlock, tokenVar := token (shared s)\<rparr>) s)
            | AtUnlock \<Rightarrow> Some (put (g\<lparr>at := AtCheck\<rparr>) (s\<lparr>mu := False\<rparr>))
            | AtCheck \<Rightarrow>
                (case tokenVar g of
                   Some tok \<Rightarrow>
                     if nowVar g < Expiry tok - marginTime (shared s)
                     then Some (put (g\<lparr>at := Returned (Inr tok)\<rparr>) s)
                     else Some (put (g\<lparr>at := AtIssue\<rparr>) s)
                 | None \<Rightarrow> Some (put (g\<lparr>at := AtIssue\<rparr>) s))
            | AtIssue \<Rightarrow> Some (put (g\<lparr>at := Issuing\<rparr>) (s\<lparr>issueCalls := Suc (issueCalls s)\<rparr>))
            | Issuing \<Rightarrow> Some (put (g\<lparr>at := AtResult newIMTokenSource\<rparr>) s)
            | AtResult r \<Rightarrow>
                (let (res, ts') = issueNewToken r (shared s)
                 in Some (put (g\<lparr>at := Returned res\<rparr>) (s\<lparr>shared := ts'\<rparr>)))
            | Returned r \<Rightarrow> None)
      else None)"

text \<open>A schedule names the goroutine that takes each step; a blocked step ends the run.\<close>

fun runSchedule :: "(error + oauthToken) \<Rightarrow> nat list \<Rightarrow> tokenSys \<Rightarrow> tokenSys option" where
  "runSchedule newIMTokenSource [] s = Some s"
| "runSchedule newIMTokenSource (i # sched) s =
     (case stepGoroutine newIMTokenSource i s of
        None \<Rightarrow> None
      | Some s' \<Rightarrow> runSchedule newIMTokenSource sched s')"

definition callers :: "cachedIMTokenSource \<Rightarrow> int list \<Rightarrow> tokenSys" where
  "callers ts nows =
     \<lparr>mu = False, shared = ts, issueCalls = 0,
      goroutines = map (\<lambda>n. \<lparr>at = AtLock, tokenVar = None, nowVar = n\<rparr>) nows\<rparr>"

subsection \<open>The identity-manager secret\<close>

definition secretAccessInfoLength :: nat where
  "secretAccessInfoLength = 1000"

record idManagerSecret =
  username :: string
  password :: string
  realm :: string
  client_id :: string
  client_secret :: string

text \<open>
  \<open>corev1.Secret\<close> with its \<open>Data\<close> map (\<open>None\<close> is the nil map); a value is a byte string.
  \<open>kubecontrollers.GetSecret\<close> belongs to package \<open>kube_utils\<close>, which is not among the
  files modelled: its result (an error, no secret, or a secret) is the argument.
\<close>

record k8sSecret =
  Data :: "(string \<rightharpoonup> string) option"

text \<open>\<open>string(secret.Data[key])\<close>: a missing key reads as the empty byte string.\<close>

definition secretField :: "(string \<rightharpoonup> string) \<Rightarrow> string \<Rightarrow> string" where
  "secretField data key = (case data key of None \<Rightarrow> [] | Some bytes \<Rightarrow> bytes)"

definition emptySecret :: idManagerSecret where
  "emptySecret = \<lparr>username = [], password = [], realm = [], client_id = [], client_secret = []\<rparr>"

definition getIdManagerSecret :: "(error + k8sSecret option) \<Rightarrow> error + idManagerSecret" where
  "getIdManagerSecret GetSecret =
     (case GetSecret of
        Inl err \<Rightarrow> Inl err
      | Inr None \<Rightarrow> Inr emptySecret
      | Inr (Some secret) \<Rightarrow>
          (case Data secret of
             None \<Rightarrow> Inr emptySecret
           | Some data \<Rightarrow>
               if \<not> length (secretField data ''username'') < secretAccessInfoLength
               then Inl (Err ''username length exceeds the limitation'')
               else if \<not> length (secretField data ''password'') < secretAccessInfoLength
               then Inl (Err ''password length exceeds the limitation'')
               else if \<not> length (secretField data ''realm'') < secretAccessInfoLength
               then Inl (Err ''realm length exceeds the limitation'')
               else if \<not> length (secretField data ''client_id'') < secretAccessInfoLength
               then Inl (Err ''client_id length exceeds the limitation'')
               else if \<not> length (secretField data ''client_secret'') < secretAccessInfoLength
               then Inl (Err ''client_secret length exceeds the limitation'')
               else Inr \<lparr>username = secretField data ''username'',
                         password = secretField data ''password'',
                         realm = secretField data ''realm'',
                         client_id = secretField data ''client_id'',
                         client_secret = secretField data ''client_secret''\<rparr>))"

text \<open>\<open>strings.Split(s, ".")\<close> for a one-byte separator.\<close>

fun splitOn :: "char \<Rightarrow> string \<Rightarrow> string list" where
  "splitOn sep [] = [[]]"
| "splitOn sep (c # cs) =
     (if c = sep then [] # splitOn sep cs
      else (case splitOn sep cs of
              [] \<Rightarrow> [[c]]
            | p # ps \<Rightarrow> (c # p) # ps))"

text \<open>
  \<open>time.Unix(sec, 0)\<close> as an instant in nanoseconds. The library keeps an instant as an
  \<open>int64\<close> count of seconds from the year 1 and obtains it by adding \<open>unixToInternal\<close> to
  \<open>sec\<close>; the addition wraps around for \<open>sec\<close> near the greatest \<open>int64\<close>.
\<close>

definition unixToInternal :: int where
  "unixToInternal = 62135596800"

definition timeUnix :: "64 word \<Rightarrow> int" where
  "timeUnix sec = (sint (sec + word_of_int unixToInternal) - unixToInternal) * second"

text \<open>
  \<open>idManagerTokenSource.Token\<close>. The identity service (\<open>GetIMToken\<close>), the base64url
  decoder and the JSON decoder of the \<open>exp\<close> field (an \<open>int64\<close>) are libraries and
  collaborators outside the repository: they are arguments.
\<close>

definition idManagerToken ::
  "(error + k8sSecret option) \<Rightarrow> (idManagerSecret \<Rightarrow> error + string)
     \<Rightarrow> (string \<Rightarrow> error + string) \<Rightarrow> (string \<Rightarrow> error + 64 word) \<Rightarrow> error + oauthToken" where
  "idManagerToken GetSecret GetIMToken decodeBase64 unmarshalExp =
     (case getIdManagerSecret GetSecret of
        Inl err \<Rightarrow> Inl err
      | Inr secret \<Rightarrow>
          (case GetIMToken secret of
             Inl err \<Rightarrow> Inl err
           | Inr accessTok \<Rightarrow>
               (case splitOn CHR ''.'' accessTok of
                  _ # payload # _ \<Rightarrow>
                    (case decodeBase64 payload of
                       Inl err \<Rightarrow> Inl (Err ''failed to decode base64'')
                     | Inr decodedBytes \<Rightarrow>
                         (case unmarshalExp decodedBytes of
                            Inl err \<Rightarrow> Inl (Err ''failed to unmarshal JSON'')
                          | Inr exp \<Rightarrow> Inr \<lparr>AccessToken = accessTok, Expiry = timeUnix exp\<rparr>))
                | _ \<Rightarrow> Inl (Err ''invalid access token''))))"

section \<open>Decimal rendering\<close>

text \<open>\<open>strconv.Itoa\<close> and the verb \<open>%d\<close> of \<open>fmt.Sprintf\<close>: the decimal digits, with a sign.\<close>

definition digitChar :: "nat \<Rightarrow> char" where
  "digitChar d = ''0123456789'' ! d"

function utoa :: "nat \<Rightarrow> string" where
  "utoa n = (if n < 10 then [digitChar n] else utoa (n div 10) @ [digitChar (n mod 10)])"
  by pat_completeness auto
termination
  by (relation "measure id") auto

declare utoa.simps [simp del]

definition Itoa :: "int \<Rightarrow> string" where
  "Itoa i = (if i < 0 then CHR ''-'' # utoa (nat (- i)) else utoa (nat i))"

section \<open>The manager's data (package manager)\<close>

text \<open>
  A \<open>*device\<close> is an address in a heap of device records, and a \<open>map[string]string\<close> of
  attributes is an address in a heap of map objects (\<open>None\<close> is the nil map): both are
  reference types in Go, and \<open>DeepCopy\<close> copies the references. An address is an index
  into the heap's list; allocation appends. The pointers \<open>*int\<close> and \<open>*int64\<close> are the
  value pointed to or \<open>None\<close> for nil: no statement writes through one of them.
  A Go map that is ranged over is an association list with \<open>AList.update\<close> as the
  assignment \<open>m[k] = v\<close>; the order of the list stands for the order of the iteration,
  which Go leaves unspecified: the model runs one of the orders the program can take.
\<close>

type_synonym addr = nat

record device =
  k8sDeviceName :: string
  driverName :: string
  draAttributes :: "addr option"
  availableDeviceCount :: int
  minDeviceCount :: "int option"
  maxDeviceCount :: "int option"
  bindingTimeout :: "int option"

type_synonym deviceList = "(string \<times> addr) list"

record store =
  devices :: "device list"
  attrMaps :: "(string \<times> string) list list"

text \<open>
  \<open>machine\<close>. The field \<open>fabricID\<close> is a \<open>*int\<close> in the source; a machine is built only
  after the nil test of the pointer (the \<open>continue\<close> of the first loop of the pass), so
  the field holds the integer. A nil \<open>deviceList\<close> is the empty list.
\<close>

record machine =
  nodeName :: string
  machineUUID :: string
  fabricID :: int
  deviceList :: deviceList
  nodeGroupUUID :: string

text \<open>\<open>config.DeviceInfo\<close>, the fields the manager reads.\<close>

record deviceInfo =
  CDIModelName :: string
  DRAAttributes :: "addr option"
  DriverName :: string
  K8sDeviceName :: string

text \<open>\<open>resourceapi.Device\<close>, \<open>corev1.NodeSelectorRequirement\<close> and \<open>resourceslice.Pool\<close>.
  A slice is the list of its devices; the selector is the list of its terms, each the
  list of its match expressions; \<open>Generation\<close> is an \<open>int64\<close>.\<close>

record resourceDevice =
  Name :: string
  Attributes :: "(string \<times> string) list"
  UsageRestrictedToNode :: "bool option"
  BindingConditions :: "string list"
  BindingFailureConditions :: "string list"
  BindingTimeoutSeconds :: "int option"

record nodeSelectorRequirement =
  Key :: string
  Operator :: string
  Values :: "string list"

record pool =
  NodeSelector :: "nodeSelectorRequirement list list option"
  Slices :: "resourceDevice list list"
  Generation :: "64 word"

definition zeroPool :: pool where
  "zeroPool = \<lparr>NodeSelector = None, Slices = [], Generation = 0\<rparr>"

type_synonym driverResources = "string \<rightharpoonup> pool"

record CDIOptions =
  useCapiBmh :: bool
  useCM :: bool
  bindingTimeoutOpt :: "int option"

record CDIManager =
  namedDriverResources :: "(string \<times> driverResources) list"
  deviceInfos :: "deviceInfo list"
  labelPrefix :: string
  cdiOptions :: CDIOptions

text \<open>
  The collaborators: the cluster controllers (\<open>kube_utils\<close>), the CDI client and the core
  client are not among the files modelled, so each operation is a field that gives the
  operation's answer; within one pass an operation answers the same arguments the same
  way. \<open>Labels\<close> of a node is \<open>None\<close> for the nil map.
\<close>

record fmMachine =
  MachineUUID :: string
  FabricID :: "int option"

record cmNodeGroup =
  UUID :: string

record cmNodeGroupInfo = cmNodeGroup +
  MachineIDs :: "string list"

record cmCondition =
  Column :: string
  CondOperator :: string
  Value :: string

record cmResSpec =
  Conditions :: "cmCondition list"
  MinResSpecCount :: "int option"
  MaxResSpecCount :: "int option"

record k8sNode =
  NodeObjectName :: string
  Labels :: "(string \<rightharpoonup> string) option"

record collaborators =
  ListProviderIDs :: "error + string list"
  FindNodeNameByProviderID :: "string \<Rightarrow> error + string"
  FindMachineUUIDByProviderID :: "string \<Rightarrow> error + string"
  GetFMMachineList :: "error + fmMachine list"
  GetFMAvailableReservedResources :: "string \<Rightarrow> string \<Rightarrow> error + int"
  GetCMNodeGroups :: "error + cmNodeGroup list"
  GetCMNodeGroupInfo :: "cmNodeGroup \<Rightarrow> error + cmNodeGroupInfo"
  GetCMNodeDetails :: "string \<Rightarrow> error + cmResSpec list"
  GetNode :: "string \<Rightarrow> error + k8sNode option"
  UpdateNode :: "k8sNode \<Rightarrow> error option"

subsection \<open>The heap\<close>

definition deref :: "store \<Rightarrow> addr \<Rightarrow> device option" where
  "deref s a = (if a < length (devices s) then Some (devices s ! a) else None)"

definition newDevice :: "store \<Rightarrow> device \<Rightarrow> addr \<times> store" where
  "newDevice s d = (length (devices s), s\<lparr>devices := devices s @ [d]\<rparr>)"

definition writeDevice :: "store \<Rightarrow> addr \<Rightarrow> device \<Rightarrow> store" where
  "writeDevice s a d = s\<lparr>devices := (devices s)[a := d]\<rparr>"

text \<open>Reading a map of attributes through its reference; the nil map has no entry.\<close>

definition readAttrs :: "store \<Rightarrow> addr option \<Rightarrow> (string \<times> string) list" where
  "readAttrs s ref =
     (case ref of
        None \<Rightarrow> []
      | Some r \<Rightarrow> if r < length (attrMaps s) then attrMaps s ! r else [])"

text \<open>The Go statement \<open>m[key] = value\<close> on a map of attributes; it panics on the nil map.\<close>

definition assignAttr :: "store \<Rightarrow> addr option \<Rightarrow> string \<Rightarrow> string \<Rightarrow> error + store" where
  "assignAttr s ref key v =
     (case ref of
        None \<Rightarrow> Inl (Panic ''assignment to entry in nil map'')
      | Some r \<Rightarrow>
          if r < length (attrMaps s)
          then Inr (s\<lparr>attrMaps := (attrMaps s)[r := AList.update key v (attrMaps s ! r)]\<rparr>)
          else Inl (Panic ''invalid memory address or nil pointer dereference''))"

subsection \<open>\<open>deviceList.DeepCopy\<close>\<close>

fun DeepCopyLoop :: "store \<Rightarrow> deviceList \<Rightarrow> deviceList \<Rightarrow> error + (deviceList \<times> store)" where
  "DeepCopyLoop s [] out = Inr (out, s)"
| "DeepCopyLoop s ((modelName, inDevice) # rest) out =
     (case deref s inDevice of
        None \<Rightarrow> Inl (Panic ''invalid memory address or nil pointer dereference'')
      | Some d \<Rightarrow>
          (let (newDev, s') = newDevice s d
           in DeepCopyLoop s' rest (AList.update modelName newDev out)))"

definition DeepCopy :: "store \<Rightarrow> deviceList \<Rightarrow> error + (deviceList \<times> store)" where
  "DeepCopy s inList = DeepCopyLoop s inList []"

section \<open>The reconciliation pass\<close>

subsection \<open>\<open>getMachineUUIDs\<close>\<close>

fun machineUUIDsLoop ::
  "collaborators \<Rightarrow> bool \<Rightarrow> string list \<Rightarrow> (string \<times> string) list \<Rightarrow> error + (string \<times> string) list" where
  "machineUUIDsLoop env capiBmh [] uuids = Inr uuids"
| "machineUUIDsLoop env capiBmh (providerID # rest) uuids =
     (case FindNodeNameByProviderID env providerID of
        Inl err \<Rightarrow> Inl err
      | Inr name \<Rightarrow>
          if name = [] then machineUUIDsLoop env capiBmh rest uuids
          else if \<not> capiBmh
          then machineUUIDsLoop env capiBmh rest (AList.update name providerID uuids)
          else (case FindMachineUUIDByProviderID env providerID of
                  Inl err \<Rightarrow> Inl err
                | Inr uuid \<Rightarrow>
                    if uuid = [] then machineUUIDsLoop env capiBmh rest uuids
                    else machineUUIDsLoop env capiBmh rest (AList.update name uuid uuids)))"

definition getMachineUUIDs :: "collaborators \<Rightarrow> CDIManager \<Rightarrow> error + (string \<times> string) list" where
  "getMachineUUIDs env m =
     (case ListProviderIDs env of
        Inl err \<Rightarrow> Inl err
      | Inr providerIDs \<Rightarrow> machineUUIDsLoop env (useCapiBmh (cdiOptions m)) providerIDs [])"

subsection \<open>The wrappers of the CDI client\<close>

definition getMachineList :: "collaborators \<Rightarrow> error + fmMachine list" where
  "getMachineList env =
     (case GetFMMachineList env of
        Inl err \<Rightarrow> Inl (Err ''FM machine list API failed'')
      | Inr mList \<Rightarrow> Inr mList)"

definition getAvailableNums :: "collaborators \<Rightarrow> string \<Rightarrow> string \<Rightarrow> error + int" where
  "getAvailableNums env muuid modelName =
     (case GetFMAvailableReservedResources env muuid modelName of
        Inl err \<Rightarrow> Inl (Err ''FM available reserved resources API failed'')
      | Inr reservedResourceNum \<Rightarrow> Inr reservedResourceNum)"

definition getNodeGroups :: "collaborators \<Rightarrow> error + cmNodeGroup list" where
  "getNodeGroups env =
     (case GetCMNodeGroups env of
        Inl err \<Rightarrow> Inl (Err ''CM node groups API failed'')
      | Inr nodeGroups \<Rightarrow> Inr nodeGroups)"

definition getNodeGroupInfo :: "collaborators \<Rightarrow> cmNodeGroup \<Rightarrow> error + cmNodeGroupInfo" where
  "getNodeGroupInfo env nodeGroup =
     (case GetCMNodeGroupInfo env nodeGroup of
        Inl err \<Rightarrow> Inl (Err ''CM node group info API failed'')
      | Inr nodeGroupInfo \<Rightarrow> Inr nodeGroupInfo)"

type_synonym limit = "int option \<times> int option"

text \<open>The two nested loops of \<open>getMinMaxNums\<close>: a pair \<open>(min, max)\<close> updated by every
  condition on the model of every resource specification, the last one winning.\<close>

definition minMaxOfCondition :: "string \<Rightarrow> cmResSpec \<Rightarrow> limit \<Rightarrow> cmCondition \<Rightarrow> limit" where
  "minMaxOfCondition modelName resspec acc condition =
     (if Column condition = ''model'' \<and> CondOperator condition = ''eq'' \<and> Value condition = modelName
      then ((if MinResSpecCount resspec \<noteq> None then MinResSpecCount resspec else fst acc),
            (if MaxResSpecCount resspec \<noteq> None then MaxResSpecCount resspec else snd acc))
      else acc)"

definition minMaxOfResSpec :: "string \<Rightarrow> limit \<Rightarrow> cmResSpec \<Rightarrow> limit" where
  "minMaxOfResSpec modelName acc resspec =
     foldl (minMaxOfCondition modelName resspec) acc (Conditions resspec)"

definition getMinMaxNums :: "collaborators \<Rightarrow> string \<Rightarrow> string \<Rightarrow> error + limit" where
  "getMinMaxNums env muuid modelName =
     (case GetCMNodeDetails env muuid of
        Inl err \<Rightarrow> Inl (Err ''CM node details API failed'')
      | Inr resSpecs \<Rightarrow> Inr (foldl (minMaxOfResSpec modelName) (None, None) resSpecs))"

fun getFabricID :: "fmMachine list \<Rightarrow> string \<Rightarrow> int option" where
  "getFabricID [] muuid = None"
| "getFabricID (mach # rest) muuid =
     (if MachineUUID mach = muuid then FabricID mach else getFabricID rest muuid)"

subsection \<open>The loops of \<open>startCheckResourcePoolLoop\<close>\<close>

text \<open>The node-group infos, one call for each node group.\<close>

fun nodeGroupInfos :: "collaborators \<Rightarrow> cmNodeGroup list \<Rightarrow> error + cmNodeGroupInfo list" where
  "nodeGroupInfos env [] = Inr []"
| "nodeGroupInfos env (nodeGroup # rest) =
     (case getNodeGroupInfo env nodeGroup of
        Inl err \<Rightarrow> Inl err
      | Inr ngInfo \<Rightarrow>
          (case nodeGroupInfos env rest of
             Inl err \<Rightarrow> Inl err
           | Inr ngInfos \<Rightarrow> Inr (ngInfo # ngInfos)))"

text \<open>
  The map \<open>foundInNodeGroup\<close> is made anew for each machine and written at the one key
  \<open>muuid\<close>: the model keeps its entry at that key, \<open>None\<close> while there is none. A later
  node group that lists the machine overwrites an earlier one.
\<close>

definition foundInNodeGroup :: "cmNodeGroupInfo list \<Rightarrow> string \<Rightarrow> string option" where
  "foundInNodeGroup ngInfos muuid =
     foldl (\<lambda>found ngInfo. if muuid \<in> set (MachineIDs ngInfo) then Some (UUID ngInfo) else found)
       None ngInfos"

text \<open>The loop that creates the machines; a machine without a fabric id is skipped.\<close>

fun createMachines ::
  "bool \<Rightarrow> fmMachine list \<Rightarrow> cmNodeGroupInfo list \<Rightarrow> (string \<times> string) list \<Rightarrow> machine list" where
  "createMachines cm mList ngInfos [] = []"
| "createMachines cm mList ngInfos ((name, muuid) # rest) =
     (case getFabricID mList muuid of
        None \<Rightarrow> createMachines cm mList ngInfos rest
      | Some fid \<Rightarrow>
          \<lparr>nodeName = name, machineUUID = muuid, fabricID = fid, deviceList = [],
           nodeGroupUUID =
             (case (if cm then foundInNodeGroup ngInfos muuid else None) of
                None \<Rightarrow> []
              | Some ngUUID \<Rightarrow> ngUUID)\<rparr>
          # createMachines cm mList ngInfos rest)"

text \<open>The device list of one fabric: one new device record for each configured model.\<close>

fun discoverDevices ::
  "collaborators \<Rightarrow> int option \<Rightarrow> string \<Rightarrow> deviceInfo list \<Rightarrow> deviceList \<Rightarrow> store
     \<Rightarrow> error + (deviceList \<times> store)" where
  "discoverDevices env timeout muuid [] dl s = Inr (dl, s)"
| "discoverDevices env timeout muuid (info # rest) dl s =
     (case getAvailableNums env muuid (CDIModelName info) of
        Inl err \<Rightarrow> Inl err
      | Inr availableNum \<Rightarrow>
          (let (a, s') = newDevice s
                 \<lparr>k8sDeviceName = K8sDeviceName info,
                  driverName = DriverName info,
                  draAttributes = DRAAttributes info,
                  availableDeviceCount = availableNum,
                  minDeviceCount = None,
                  maxDeviceCount = None,
                  bindingTimeout = timeout\<rparr>
           in discoverDevices env timeout muuid rest (AList.update (CDIModelName info) a dl) s'))"

fun discoverFabrics ::
  "collaborators \<Rightarrow> CDIManager \<Rightarrow> machine list \<Rightarrow> (int \<times> deviceList) list \<Rightarrow> store
     \<Rightarrow> error + ((int \<times> deviceList) list \<times> store)" where
  "discoverFabrics env m [] fabricFound s = Inr (fabricFound, s)"
| "discoverFabrics env m (mach # rest) fabricFound s =
     (if map_of fabricFound (fabricID mach) \<noteq> None then discoverFabrics env m rest fabricFound s
      else (case discoverDevices env (bindingTimeoutOpt (cdiOptions m)) (machineUUID mach)
                   (deviceInfos m) [] s of
              Inl err \<Rightarrow> Inl err
            | Inr (dl, s') \<Rightarrow>
                discoverFabrics env m rest (AList.update (fabricID mach) dl fabricFound) s'))"

text \<open>The copy of the device list of a fabric into every machine of the fabric.\<close>

fun copyToMachines ::
  "store \<Rightarrow> int \<Rightarrow> deviceList \<Rightarrow> machine list \<Rightarrow> error + (machine list \<times> store)" where
  "copyToMachines s fid dl [] = Inr ([], s)"
| "copyToMachines s fid dl (mach # rest) =
     (if fabricID mach \<noteq> fid
      then (case copyToMachines s fid dl rest of
              Inl err \<Rightarrow> Inl err
            | Inr (rest', s') \<Rightarrow> Inr (mach # rest', s'))
      else (case DeepCopy s dl of
              Inl err \<Rightarrow> Inl err
            | Inr (out, s1) \<Rightarrow>
                (case copyToMachines s1 fid dl rest of
                   Inl err \<Rightarrow> Inl err
                 | Inr (rest', s') \<Rightarrow> Inr (mach\<lparr>deviceList := out\<rparr> # rest', s'))))"

fun copyDeviceLists ::
  "store \<Rightarrow> (int \<times> deviceList) list \<Rightarrow> machine list \<Rightarrow> error + (machine list \<times> store)" where
  "copyDeviceLists s [] machines = Inr (machines, s)"
| "copyDeviceLists s ((fid, dl) # rest) machines =
     (case copyToMachines s fid dl machines of
        Inl err \<Rightarrow> Inl err
      | Inr (machines', s') \<Rightarrow> copyDeviceLists s' rest machines')"

text \<open>The bounds of one node group, asked for the models of its first machine.\<close>

fun queryLimits ::
  "collaborators \<Rightarrow> string \<Rightarrow> deviceList \<Rightarrow> (string \<times> limit) list \<Rightarrow> error + (string \<times> limit) list" where
  "queryLimits env muuid [] deviceMinMax = Inr deviceMinMax"
| "queryLimits env muuid ((model, a) # rest) deviceMinMax =
     (case getMinMaxNums env muuid model of
        Inl err \<Rightarrow> Inl err
      | Inr lim \<Rightarrow> queryLimits env muuid rest (AList.update model lim deviceMinMax))"

fun discoverNodeGroups ::
  "collaborators \<Rightarrow> machine list \<Rightarrow> (string \<times> (string \<times> limit) list) list
     \<Rightarrow> error + (string \<times> (string \<times> limit) list) list" where
  "discoverNodeGroups env [] nodeGroupFound = Inr nodeGroupFound"
| "discoverNodeGroups env (mach # rest) nodeGroupFound =
     (if map_of nodeGroupFound (nodeGroupUUID mach) \<noteq> None
      then discoverNodeGroups env rest nodeGroupFound
      else (case queryLimits env (machineUUID mach) (deviceList mach) [] of
              Inl err \<Rightarrow> Inl err
            | Inr deviceMinMax \<Rightarrow>
                discoverNodeGroups env rest
                  (AList.update (nodeGroupUUID mach) deviceMinMax nodeGroupFound)))"

text \<open>
  The assignments \<open>machine.deviceList[model].minDeviceCount = limit.min\<close> and that of the
  maximum: the entry of the model is looked up and the device record written through
  the pointer; a model without an entry gives the nil pointer.
\<close>

definition setMinDeviceCount :: "store \<Rightarrow> deviceList \<Rightarrow> string \<Rightarrow> int \<Rightarrow> error + store" where
  "setMinDeviceCount s dl model v =
     (case map_of dl model of
        None \<Rightarrow> Inl (Panic ''invalid memory address or nil pointer dereference'')
      | Some a \<Rightarrow>
          (case deref s a of
             None \<Rightarrow> Inl (Panic ''invalid memory address or nil pointer dereference'')
           | Some d \<Rightarrow> Inr (writeDevice s a (d\<lparr>minDeviceCount := Some v\<rparr>))))"

definition setMaxDeviceCount :: "store \<Rightarrow> deviceList \<Rightarrow> string \<Rightarrow> int \<Rightarrow> error + store" where
  "setMaxDeviceCount s dl model v =
     (case map_of dl model of
        None \<Rightarrow> Inl (Panic ''invalid memory address or nil pointer dereference'')
      | Some a \<Rightarrow>
          (case deref s a of
             None \<Rightarrow> Inl (Panic ''invalid memory address or nil pointer dereference'')
           | Some d \<Rightarrow> Inr (writeDevice s a (d\<lparr>maxDeviceCount := Some v\<rparr>))))"

fun overlayLimits :: "store \<Rightarrow> deviceList \<Rightarrow> (string \<times> limit) list \<Rightarrow> error + store" where
  "overlayLimits s dl [] = Inr s"
| "overlayLimits s dl ((model, lim) # rest) =
     (case (case fst lim of None \<Rightarrow> Inr s | Some v \<Rightarrow> setMinDeviceCount s dl model v) of
        Inl err \<Rightarrow> Inl err
      | Inr s1 \<Rightarrow>
          (case (case snd lim of None \<Rightarrow> Inr s1 | Some v \<Rightarrow> setMaxDeviceCount s1 dl model v) of
             Inl err \<Rightarrow> Inl err
           | Inr s2 \<Rightarrow> overlayLimits s2 dl rest))"

fun overlayGroup ::
  "store \<Rightarrow> string \<Rightarrow> (string \<times> limit) list \<Rightarrow> machine list \<Rightarrow> error + store" where
  "overlayGroup s ngUUID deviceMinMax [] = Inr s"
| "overlayGroup s ngUUID deviceMinMax (mach # rest) =
     (if nodeGroupUUID mach \<noteq> ngUUID then overlayGroup s ngUUID deviceMinMax rest
      else (case overlayLimits s (deviceList mach) deviceMinMax of
              Inl err \<Rightarrow> Inl err
            | Inr s' \<Rightarrow> overlayGroup s' ngUUID deviceMinMax rest))"

fun overlayNodeGroups ::
  "store \<Rightarrow> (string \<times> (string \<times> limit) list) list \<Rightarrow> machine list \<Rightarrow> error + store" where
  "overlayNodeGroups s [] machines = Inr s"
| "overlayNodeGroups s ((ngUUID, deviceMinMax) # rest) machines =
     (case overlayGroup s ngUUID deviceMinMax machines of
        Inl err \<Rightarrow> Inl err
      | Inr s' \<Rightarrow> overlayNodeGroups s' rest machines)"

subsection \<open>\<open>generatePool\<close> and \<open>updatePool\<close>\<close>

definition GpuDeviceType :: string where
  "GpuDeviceType = ''gpu''"

text \<open>The body of the loop of \<open>generatePool\<close>: the device entry of index \<open>i\<close>.\<close>

definition poolDevice :: "store \<Rightarrow> device \<Rightarrow> nat \<Rightarrow> resourceDevice" where
  "poolDevice s dev i =
     \<lparr>Name = k8sDeviceName dev @ ''-gpu'' @ Itoa (int i),
      Attributes =
        foldl (\<lambda>attrs (key, v). AList.update key v attrs) [(''type'', GpuDeviceType)]
          (readAttrs s (draAttributes dev)),
      UsageRestrictedToNode = Some True,
      BindingConditions = [''FabricDeviceReady''],
      BindingFailureConditions = [''FabricDeviceReschedule'', ''FabricDeviceFailed''],
      BindingTimeoutSeconds = bindingTimeout dev\<rparr>"

definition generatePool :: "string \<Rightarrow> store \<Rightarrow> device \<Rightarrow> int \<Rightarrow> 64 word \<Rightarrow> pool" where
  "generatePool prefix s dev fid generation =
     \<lparr>NodeSelector =
        Some [[\<lparr>Key = prefix @ ''/'' @ k8sDeviceName dev, Operator = ''In'', Values = [''true'']\<rparr>,
               \<lparr>Key = prefix @ ''/'' @ ''fabric'', Operator = ''In'', Values = [Itoa fid]\<rparr>]],
      Slices = [map (poolDevice s dev) [0 ..< nat (availableDeviceCount dev)]],
      Generation = generation\<rparr>"

text \<open>
  \<open>updatePool\<close>. The driver's resources are reached through a pointer, nil for a driver
  that is not tracked; a pool name without an entry reads as the zero pool. The result
  is the flag \<open>updated\<close> and the driver resources afterwards.
\<close>

definition updatePool ::
  "string \<Rightarrow> store \<Rightarrow> (string \<times> driverResources) list \<Rightarrow> string \<Rightarrow> string \<Rightarrow> device \<Rightarrow> int
     \<Rightarrow> error + (bool \<times> (string \<times> driverResources) list)" where
  "updatePool prefix s ndr driver poolName dev fid =
     (case map_of ndr driver of
        None \<Rightarrow> Inl (Panic ''invalid memory address or nil pointer dereference'')
      | Some pools \<Rightarrow>
          (let p = (case pools poolName of None \<Rightarrow> zeroPool | Some stored \<Rightarrow> stored)
           in case Slices p of
                [] \<Rightarrow>
                  Inr (True,
                       AList.update driver (pools(poolName \<mapsto> generatePool prefix s dev fid 1)) ndr)
              | slice0 # _ \<Rightarrow>
                  if int (length slice0) \<noteq> availableDeviceCount dev
                  then Inr (True,
                            AList.update driver
                              (pools(poolName \<mapsto> generatePool prefix s dev fid (Generation p + 1))) ndr)
                  else Inr (False, ndr)))"

subsection \<open>\<open>manageCDIResourceSlices\<close>\<close>

text \<open>The loop over the devices of the first machine seen on a fabric.\<close>

fun updateDevicePools ::
  "string \<Rightarrow> store \<Rightarrow> int \<Rightarrow> deviceList \<Rightarrow> (string \<times> driverResources) list \<Rightarrow> string set
     \<Rightarrow> error + ((string \<times> driverResources) list \<times> string set)" where
  "updateDevicePools prefix s fid [] ndr needUpdate = Inr (ndr, needUpdate)"
| "updateDevicePools prefix s fid ((model, a) # rest) ndr needUpdate =
     (case deref s a of
        None \<Rightarrow> Inl (Panic ''invalid memory address or nil pointer dereference'')
      | Some dev \<Rightarrow>
          if map_of ndr (driverName dev) \<noteq> None
          then (case updatePool prefix s ndr (driverName dev)
                       (k8sDeviceName dev @ ''-fabric'' @ Itoa fid) dev fid of
                  Inl err \<Rightarrow> Inl err
                | Inr (updated, ndr') \<Rightarrow>
                    updateDevicePools prefix s fid rest ndr'
                      (if updated then insert (driverName dev) needUpdate else needUpdate))
          else updateDevicePools prefix s fid rest ndr needUpdate)"

fun updateFabricPools ::
  "string \<Rightarrow> store \<Rightarrow> machine list \<Rightarrow> int set \<Rightarrow> (string \<times> driverResources) list \<Rightarrow> string set
     \<Rightarrow> error + ((string \<times> driverResources) list \<times> string set)" where
  "updateFabricPools prefix s [] fabricFound ndr needUpdate = Inr (ndr, needUpdate)"
| "updateFabricPools prefix s (mach # rest) fabricFound ndr needUpdate =
     (if fabricID mach \<notin> fabricFound
      then (case updateDevicePools prefix s (fabricID mach) (deviceList mach) ndr needUpdate of
              Inl err \<Rightarrow> Inl err
            | Inr (ndr', needUpdate') \<Rightarrow>
                updateFabricPools prefix s rest (insert (fabricID mach) fabricFound) ndr' needUpdate')
      else updateFabricPools prefix s rest fabricFound ndr needUpdate)"

text \<open>
  The result of \<open>manageCDIResourceSlices\<close>: the driver resources afterwards and the
  resources handed to the slice controllers, one \<open>Update\<close> call for each driver that
  needs one.
\<close>

definition manageCDIResourceSlices ::
  "CDIManager \<Rightarrow> store \<Rightarrow> machine list
     \<Rightarrow> error + ((string \<times> driverResources) list \<times> (string \<times> driverResources) list)" where
  "manageCDIResourceSlices m s machines =
     (case updateFabricPools (labelPrefix m) s machines {} (namedDriverResources m) {} of
        Inl err \<Rightarrow> Inl err
      | Inr (ndr, needUpdate) \<Rightarrow> Inr (ndr, filter (\<lambda>(driver, res). driver \<in> needUpdate) ndr))"

subsection \<open>\<open>manageCDINodeLabel\<close>\<close>

text \<open>
  The label map of a node is written in place. The model keeps, beside the map, the
  writes made to it in order: \<open>SetLabel\<close> for an assignment and \<open>DeleteLabel\<close> for the
  builtin \<open>delete\<close>. \<open>labelValue\<close> is the read \<open>node.Labels[key]\<close>, empty for a missing key.
\<close>

datatype labelWrite = SetLabel string string | DeleteLabel string

type_synonym labelState = "(string \<rightharpoonup> string) \<times> labelWrite list"

definition labelValue :: "(string \<rightharpoonup> string) \<Rightarrow> string \<Rightarrow> string" where
  "labelValue labels key = (case labels key of None \<Rightarrow> [] | Some v \<Rightarrow> v)"

definition setLabel :: "string \<Rightarrow> string \<Rightarrow> labelState \<Rightarrow> labelState" where
  "setLabel key v st = ((fst st)(key \<mapsto> v), snd st @ [SetLabel key v])"

definition deleteLabel :: "string \<Rightarrow> labelState \<Rightarrow> labelState" where
  "deleteLabel key st = ((fst st)(key := None), snd st @ [DeleteLabel key])"

definition labelMax :: "string \<Rightarrow> device \<Rightarrow> labelState \<Rightarrow> labelState" where
  "labelMax prefix dev st =
     (let maxLabelKey = prefix @ ''/'' @ k8sDeviceName dev @ ''-size-max''
      in case maxDeviceCount dev of
           Some n \<Rightarrow>
             if labelValue (fst st) maxLabelKey \<noteq> Itoa n then setLabel maxLabelKey (Itoa n) st
             else st
         | None \<Rightarrow> deleteLabel maxLabelKey st)"

definition labelMin :: "string \<Rightarrow> device \<Rightarrow> labelState \<Rightarrow> labelState" where
  "labelMin prefix dev st =
     (let minLabelKey = prefix @ ''/'' @ k8sDeviceName dev @ ''-size-min''
      in case minDeviceCount dev of
           Some n \<Rightarrow>
             if labelValue (fst st) minLabelKey \<noteq> Itoa n then setLabel minLabelKey (Itoa n) st
             else st
         | None \<Rightarrow> deleteLabel minLabelKey st)"

fun labelDevices :: "string \<Rightarrow> store \<Rightarrow> deviceList \<Rightarrow> labelState \<Rightarrow> error + labelState" where
  "labelDevices prefix s [] st = Inr st"
| "labelDevices prefix s ((model, a) # rest) st =
     (case deref s a of
        None \<Rightarrow> Inl (Panic ''invalid memory address or nil pointer dereference'')
      | Some dev \<Rightarrow> labelDevices prefix s rest (labelMin prefix dev (labelMax prefix dev st)))"

text \<open>The label writes for one machine whose node was found.\<close>

definition labelNode ::
  "CDIManager \<Rightarrow> store \<Rightarrow> machine \<Rightarrow> k8sNode \<Rightarrow> error + (k8sNode \<times> labelWrite list)" where
  "labelNode m s mach node =
     (case Labels node of
        None \<Rightarrow> Inl (Panic ''assignment to entry in nil map'')
      | Some labels \<Rightarrow>
          (let fabricLabelKey = labelPrefix m @ ''/'' @ ''fabric'';
               st = setLabel fabricLabelKey (Itoa (fabricID mach)) (labels, [])
           in case (if useCM (cdiOptions m) then labelDevices (labelPrefix m) s (deviceList mach) st
                    else Inr st) of
                Inl err \<Rightarrow> Inl err
              | Inr (labels', writes) \<Rightarrow> Inr (node\<lparr>Labels := Some labels'\<rparr>, writes)))"

text \<open>The result is the list of the nodes sent to the core client's \<open>Update\<close>, in order,
  each with the label writes made on it.\<close>

fun manageCDINodeLabel ::
  "collaborators \<Rightarrow> CDIManager \<Rightarrow> store \<Rightarrow> machine list \<Rightarrow> error + (k8sNode \<times> labelWrite list) list" where
  "manageCDINodeLabel env m s [] = Inr []"
| "manageCDINodeLabel env m s (mach # rest) =
     (case GetNode env (nodeName mach) of
        Inl err \<Rightarrow> Inl err
      | Inr None \<Rightarrow> manageCDINodeLabel env m s rest
      | Inr (Some node) \<Rightarrow>
          (case labelNode m s mach node of
             Inl err \<Rightarrow> Inl err
           | Inr (node', writes) \<Rightarrow>
               (case UpdateNode env node' of
                  Some err \<Rightarrow> Inl err
                | None \<Rightarrow>
                    (case manageCDINodeLabel env m s rest of
                       Inl err \<Rightarrow> Inl err
                     | Inr updates \<Rightarrow> Inr ((node', writes) # updates)))))"

subsection \<open>\<open>startCheckResourcePoolLoop\<close>\<close>

text \<open>
  The first part of the pass, up to the overlay of the bounds: the machines with their
  device lists, and the heap that holds the device records.
\<close>

definition assembleMachines ::
  "collaborators \<Rightarrow> CDIManager \<Rightarrow> store \<Rightarrow> error + (machine list \<times> store)" where
  "assembleMachines env m s =
     (case getMachineUUIDs env m of
        Inl err \<Rightarrow> Inl err
      | Inr muuids \<Rightarrow>
          if length muuids = 0 then Inl (Err ''not any machine uuid is found'')
          else (case getMachineList env of
                  Inl err \<Rightarrow> Inl err
                | Inr mList \<Rightarrow>
                    (case (if useCM (cdiOptions m)
                           then (case getNodeGroups env of
                                   Inl err \<Rightarrow> Inl err
                                 | Inr nodeGroups \<Rightarrow> nodeGroupInfos env nodeGroups)
                           else Inr []) of
                       Inl err \<Rightarrow> Inl err
                     | Inr ngInfos \<Rightarrow>
                         (let machines = createMachines (useCM (cdiOptions m)) mList ngInfos muuids
                          in if length machines = 0
                             then Inl (Err ''not any machine is found to process'')
                             else (case discoverFabrics env m machines [] s of
                                     Inl err \<Rightarrow> Inl err
                                   | Inr (fabricFound, s1) \<Rightarrow>
                                       (case copyDeviceLists s1 fabricFound machines of
                                          Inl err \<Rightarrow> Inl err
                                        | Inr (machines', s2) \<Rightarrow>
                                            if useCM (cdiOptions m)
                                            then (case discoverNodeGroups env machines' [] of
                                                    Inl err \<Rightarrow> Inl err
                                                  | Inr nodeGroupFound \<Rightarrow>
                                                      (case overlayNodeGroups s2 nodeGroupFound machines' of
                                                         Inl err \<Rightarrow> Inl err
                                                       | Inr s3 \<Rightarrow> Inr (machines', s3)))
                                            else Inr (machines', s2)))))))"

record passResult =
  passMachines :: "machine list"
  passStore :: store
  passResources :: "(string \<times> driverResources) list"
  passPublished :: "(string \<times> driverResources) list"
  passNodeUpdates :: "(k8sNode \<times> labelWrite list) list"

definition startCheckResourcePoolLoop ::
  "collaborators \<Rightarrow> CDIManager \<Rightarrow> store \<Rightarrow> error + passResult" where
  "startCheckResourcePoolLoop env m s =
     (case assembleMachines env m s of
        Inl err \<Rightarrow> Inl err
      | Inr (machines, s') \<Rightarrow>
          (case manageCDIResourceSlices m s' machines of
             Inl err \<Rightarrow> Inl err
           | Inr (ndr, published) \<Rightarrow>
               (case manageCDINodeLabel env m s' machines of
                  Inl err \<Rightarrow> Inl err
                | Inr updates \<Rightarrow>
                    Inr \<lparr>passMachines = machines, passStore = s', passResources = ndr,
                         passPublished = published, passNodeUpdates = updates\<rparr>)))"

subsection \<open>Addresses held by the machines\<close>



subsection \<open>Writes on one label\<close>

text \<open>The key a label write is on, and the writes of a trace that are on a given key.\<close>

fun labelKey :: "labelWrite \<Rightarrow> string" where
  "labelKey (SetLabel key v) = key"
| "labelKey (DeleteLabel key) = key"

definition writesOn :: "string \<Rightarrow> labelWrite list \<Rightarrow> labelWrite list" where
  "writesOn key writes = filter (\<lambda>w. labelKey w = key) writes"

text \<open>The writes the rule for a size label asks for: the bound, when there is one and the
  node's current value differs from it; the deletion, when there is none.\<close>

definition sizeLabelWrites :: "string \<Rightarrow> int option \<Rightarrow> string \<Rightarrow> labelWrite list" where
  "sizeLabelWrites key bound current =
     (case bound of
        Some n \<Rightarrow> if current \<noteq> Itoa n then [SetLabel key (Itoa n)] else []
      | None \<Rightarrow> [DeleteLabel key])"

section \<open>Properties of the credential cache\<close>

text \<open>
  Claim C2. A call of \<open>Token\<close> at the instant \<open>now\<close>: with a cached token of expiry \<open>T\<close> and
  \<open>now < T - marginTime\<close> the cached token is returned, the cache is unchanged and the
  wrapped source is not called; with no cached token, or \<open>T - marginTime \<le> now\<close>, the
  wrapped source is called once. The margin of the source made by \<open>CachedIMTokenSource\<close> is
  30 seconds and no call changes it.
\<close>

theorem token_margin:
  "marginTime CachedIMTokenSource = 30 * second \<and>
   marginTime (snd (snd (Token newIMTokenSource now ts))) = marginTime ts \<and>
   (\<forall>tok. token ts = Some tok \<and> now < Expiry tok - marginTime ts \<longrightarrow>
      Token newIMTokenSource now ts = (Inr tok, 0, ts)) \<and>
   ((token ts = None \<or> (\<exists>tok. token ts = Some tok \<and> Expiry tok - marginTime ts \<le> now)) \<longrightarrow>
      fst (snd (Token newIMTokenSource now ts)) = 1 \<and>
      Token newIMTokenSource now ts =
        (fst (issueNewToken newIMTokenSource ts), 1, snd (issueNewToken newIMTokenSource ts)))"
  by (auto simp: Token_def CachedIMTokenSource_def issueNewToken_def split: option.splits sum.splits prod.splits)

theorem token_margin_witness:
  "Token (Inl (Err ''down'')) (69 * second)
     \<lparr>marginTime = 30 * second, token = Some \<lparr>AccessToken = ''t'', Expiry = 100 * second\<rparr>\<rparr>
   = (Inr \<lparr>AccessToken = ''t'', Expiry = 100 * second\<rparr>, 0,
      \<lparr>marginTime = 30 * second, token = Some \<lparr>AccessToken = ''t'', Expiry = 100 * second\<rparr>\<rparr>)
   \<and> fst (snd (Token (Inr \<lparr>AccessToken = ''n'', Expiry = 200 * second\<rparr>) (71 * second)
     \<lparr>marginTime = 30 * second, token = Some \<lparr>AccessToken = ''t'', Expiry = 100 * second\<rparr>\<rparr>)) = 1
   \<and> fst (snd (Token (Inr \<lparr>AccessToken = ''n'', Expiry = 200 * second\<rparr>) 0 CachedIMTokenSource)) = 1"
  using token_margin [of "Inl (Err ''down'')" "69 * second"
      "\<lparr>marginTime = 30 * second, token = Some \<lparr>AccessToken = ''t'', Expiry = 100 * second\<rparr>\<rparr>"]
    token_margin [of "Inr \<lparr>AccessToken = ''n'', Expiry = 200 * second\<rparr>" "71 * second"
      "\<lparr>marginTime = 30 * second, token = Some \<lparr>AccessToken = ''t'', Expiry = 100 * second\<rparr>\<rparr>"]
    token_margin [of "Inr \<lparr>AccessToken = ''n'', Expiry = 200 * second\<rparr>" 0 CachedIMTokenSource]
  by (simp add: second_def CachedIMTokenSource_def)

text \<open>
  Claim C3. When the wrapped source is called and fails: with a previous token the call of
  \<open>Token\<close> returns that token without an error and the cache keeps it; without one the
  error of the wrapped source is returned.
\<close>

theorem stale_fallback:
  "(token ts = None \<or> (\<exists>tok. token ts = Some tok \<and> Expiry tok - marginTime ts \<le> now)) \<Longrightarrow>
   (\<forall>old. token ts = Some old \<longrightarrow> Token (Inl err) now ts = (Inr old, 1, ts)) \<and>
   (token ts = None \<longrightarrow> Token (Inl err) now ts = (Inl err, 1, ts))"
  by (auto simp: Token_def issueNewToken_def split: option.splits)

theorem stale_fallback_witness:
  "Token (Inl (Err ''down'')) (71 * second)
     \<lparr>marginTime = 30 * second, token = Some \<lparr>AccessToken = ''t'', Expiry = 100 * second\<rparr>\<rparr>
   = (Inr \<lparr>AccessToken = ''t'', Expiry = 100 * second\<rparr>, 1,
      \<lparr>marginTime = 30 * second, token = Some \<lparr>AccessToken = ''t'', Expiry = 100 * second\<rparr>\<rparr>)
   \<and> Token (Inl (Err ''down'')) 0 CachedIMTokenSource = (Inl (Err ''down''), 1, CachedIMTokenSource)"
  using stale_fallback [of "\<lparr>marginTime = 30 * second, token = Some \<lparr>AccessToken = ''t'', Expiry = 100 * second\<rparr>\<rparr>"
      "71 * second" "Err ''down''"]
    stale_fallback [of CachedIMTokenSource 0 "Err ''down''"]
  by (simp add: second_def CachedIMTokenSource_def)

text \<open>
  Claim C8 asks that the check, the refresh and the update of the cache run as one
  critical section, so that one refresh runs at a time. In the source the mutex is held
  for the read of \<open>ts.token\<close> only: two callers that find the cache empty both pass the
  locked read, and both are inside the call of the wrapped source at the same time, with
  the mutex free.
\<close>

theorem concurrent_refresh:
  "runSchedule (Inl (Err ''down'')) [0, 0, 0, 0, 0, 1, 1, 1, 1, 1] (callers CachedIMTokenSource [0, 0]) =
     Some \<lparr>mu = False, shared = CachedIMTokenSource, issueCalls = 2,
           goroutines = [\<lparr>at = Issuing, tokenVar = None, nowVar = 0\<rparr>,
                         \<lparr>at = Issuing, tokenVar = None, nowVar = 0\<rparr>]\<rparr>"
  by (simp add: stepGoroutine_def callers_def CachedIMTokenSource_def)

text \<open>
  Claim C9 as stated fails in three ways. The bound is stated as 1000 bytes: a user name
  of exactly 1000 bytes does not exceed it and is refused, the test of the source being
  \<open>len < 1000\<close>. Obtaining a credential is stated to fail when a field exceeds the bound:
  with a password of 1001 bytes and a previous token in the cache, \<open>Token\<close> of the cache
  returns the previous token and no error. The failure is stated to be fatal and not
  retried: with an empty cache the call returns the error and leaves the cache as it
  was, and the next call on that cache calls the wrapped source again and gets a token
  from a source that succeeds.
\<close>

theorem secret_limit_counterexample:
  "length (replicate 1000 CHR ''1'') \<le> 1000 \<and>
   getIdManagerSecret (Inr (Some \<lparr>Data = Some [''username'' \<mapsto> replicate 1000 CHR ''1'']\<rparr>))
     = Inl (Err ''username length exceeds the limitation'') \<and>
   1000 < length (replicate 1001 CHR ''1'') \<and>
   Token
     (idManagerToken (Inr (Some \<lparr>Data = Some [''password'' \<mapsto> replicate 1001 CHR ''1'']\<rparr>))
        (\<lambda>secret. Inr ''a.b.c'') (\<lambda>payload. Inr payload) (\<lambda>bytes. Inr 0))
     (71 * second)
     \<lparr>marginTime = 30 * second, token = Some \<lparr>AccessToken = ''t'', Expiry = 100 * second\<rparr>\<rparr>
     = (Inr \<lparr>AccessToken = ''t'', Expiry = 100 * second\<rparr>, 1,
        \<lparr>marginTime = 30 * second, token = Some \<lparr>AccessToken = ''t'', Expiry = 100 * second\<rparr>\<rparr>) \<and>
   Token
     (idManagerToken (Inr (Some \<lparr>Data = Some [''password'' \<mapsto> replicate 1001 CHR ''1'']\<rparr>))
        (\<lambda>secret. Inr ''a.b.c'') (\<lambda>payload. Inr payload) (\<lambda>bytes. Inr 0))
     0 CachedIMTokenSource
     = (Inl (Err ''password length exceeds the limitation''), 1, CachedIMTokenSource) \<and>
   Token (Inr \<lparr>AccessToken = ''n'', Expiry = 200 * second\<rparr>) second CachedIMTokenSource
     = (Inr \<lparr>AccessToken = ''n'', Expiry = 200 * second\<rparr>, 1,
        CachedIMTokenSource\<lparr>token := Some \<lparr>AccessToken = ''n'', Expiry = 200 * second\<rparr>\<rparr>)"
  by (simp add: getIdManagerSecret_def idManagerToken_def secretField_def secretAccessInfoLength_def
      Token_def issueNewToken_def CachedIMTokenSource_def second_def)

text \<open>
  Claim C9, amended. Each of the five fields of the identity secret is accepted only when
  it is shorter than 1000 bytes (999 at most), and with all five below 1000 bytes the
  secret is accepted with the fields as given. With a field of 1000 bytes or more
  \<open>getIdManagerSecret\<close> returns an error and the token source \<open>idManagerTokenSource.Token\<close>
  returns the same error instead of a token. A call of \<open>Token\<close> of the cache that has to
  refresh then returns that error when no token is cached and the previous token, without
  an error, when one is cached; in both cases the cache is left as it was, so the error
  is not kept and the next call that has to refresh calls the wrapped source again.
\<close>

theorem secret_limit:
  "((\<forall>key \<in> {''username'', ''password'', ''realm'', ''client_id'', ''client_secret''}.
       length (secretField data key) < 1000) \<longrightarrow>
     getIdManagerSecret (Inr (Some \<lparr>Data = Some data\<rparr>)) =
       Inr \<lparr>username = secretField data ''username'', password = secretField data ''password'',
            realm = secretField data ''realm'', client_id = secretField data ''client_id'',
            client_secret = secretField data ''client_secret''\<rparr>) \<and>
   ((\<exists>key \<in> {''username'', ''password'', ''realm'', ''client_id'', ''client_secret''}.
       1000 \<le> length (secretField data key)) \<longrightarrow>
     (\<exists>msg. getIdManagerSecret (Inr (Some \<lparr>Data = Some data\<rparr>)) = Inl (Err msg) \<and>
            idManagerToken (Inr (Some \<lparr>Data = Some data\<rparr>)) GetIMToken decodeBase64 unmarshalExp
              = Inl (Err msg) \<and>
            (\<forall>now ts.
               token ts = None \<longrightarrow>
               Token (idManagerToken (Inr (Some \<lparr>Data = Some data\<rparr>)) GetIMToken decodeBase64
                        unmarshalExp) now ts
                 = (Inl (Err msg), 1, ts)) \<and>
            (\<forall>now ts old.
               token ts = Some old \<and> Expiry old - marginTime ts \<le> now \<longrightarrow>
               Token (idManagerToken (Inr (Some \<lparr>Data = Some data\<rparr>)) GetIMToken decodeBase64
                        unmarshalExp) now ts
                 = (Inr old, 1, ts)) \<and>
            (\<forall>now ts now' source.
               (token ts = None \<or> (\<exists>old. token ts = Some old \<and> Expiry old - marginTime ts \<le> now)) \<and>
               now \<le> now' \<longrightarrow>
               fst (snd (Token source now'
                      (snd (snd (Token (idManagerToken (Inr (Some \<lparr>Data = Some data\<rparr>)) GetIMToken
                                          decodeBase64 unmarshalExp) now ts))))) = 1)))"
proof (intro conjI impI)
  assume "\<forall>key \<in> {''username'', ''password'', ''realm'', ''client_id'', ''client_secret''}.
       length (secretField data key) < 1000"
  then show "getIdManagerSecret (Inr (Some \<lparr>Data = Some data\<rparr>)) =
       Inr \<lparr>username = secretField data ''username'', password = secretField data ''password'',
            realm = secretField data ''realm'', client_id = secretField data ''client_id'',
            client_secret = secretField data ''client_secret''\<rparr>"
    by (simp add: getIdManagerSecret_def secretAccessInfoLength_def)
next
  let ?src = "idManagerToken (Inr (Some \<lparr>Data = Some data\<rparr>)) GetIMToken decodeBase64 unmarshalExp"
  assume "\<exists>key \<in> {''username'', ''password'', ''realm'', ''client_id'', ''client_secret''}.
       1000 \<le> length (secretField data key)"
  then have "\<exists>msg. getIdManagerSecret (Inr (Some \<lparr>Data = Some data\<rparr>)) = Inl (Err msg)"
    by (auto simp: getIdManagerSecret_def secretAccessInfoLength_def)
  then obtain msg where g: "getIdManagerSecret (Inr (Some \<lparr>Data = Some data\<rparr>)) = Inl (Err msg)" ..
  then have src: "?src = Inl (Err msg)"
    by (simp add: idManagerToken_def)
  have none: "Token ?src now ts = (Inl (Err msg), 1, ts)" if "token ts = None" for now ts
    using that by (simp add: src Token_def issueNewToken_def)
  have stale: "Token ?src now ts = (Inr old, 1, ts)"
    if "token ts = Some old \<and> Expiry old - marginTime ts \<le> now" for now ts old
    using that by (simp add: src Token_def issueNewToken_def)
  have again: "fst (snd (Token source now' (snd (snd (Token ?src now ts))))) = 1"
    if "(token ts = None \<or> (\<exists>old. token ts = Some old \<and> Expiry old - marginTime ts \<le> now)) \<and>
        now \<le> now'" for now ts now' source
    using that by (auto simp: src Token_def issueNewToken_def split: option.splits sum.splits)
  show "\<exists>msg. getIdManagerSecret (Inr (Some \<lparr>Data = Some data\<rparr>)) = Inl (Err msg) \<and>
      ?src = Inl (Err msg) \<and>
      (\<forall>now ts. token ts = None \<longrightarrow> Token ?src now ts = (Inl (Err msg), 1, ts)) \<and>
      (\<forall>now ts old. token ts = Some old \<and> Expiry old - marginTime ts \<le> now \<longrightarrow>
         Token ?src now ts = (Inr old, 1, ts)) \<and>
      (\<forall>now ts now' source.
         (token ts = None \<or> (\<exists>old. token ts = Some old \<and> Expiry old - marginTime ts \<le> now)) \<and>
         now \<le> now' \<longrightarrow>
         fst (snd (Token source now' (snd (snd (Token ?src now ts))))) = 1)"
    using g src none stale again by blast
qed

theorem secret_limit_witness:
  "getIdManagerSecret (Inr (Some \<lparr>Data = Some [''username'' \<mapsto> replicate 999 CHR ''1'']\<rparr>)) =
     Inr \<lparr>username = replicate 999 CHR ''1'', password = [], realm = [], client_id = [],
          client_secret = []\<rparr> \<and>
   (\<exists>msg. getIdManagerSecret (Inr (Some \<lparr>Data = Some [''password'' \<mapsto> replicate 1000 CHR ''1'']\<rparr>))
            = Inl (Err msg) \<and>
          idManagerToken (Inr (Some \<lparr>Data = Some [''password'' \<mapsto> replicate 1000 CHR ''1'']\<rparr>))
            (\<lambda>secret. Inr ''a.b.c'') (\<lambda>payload. Inr payload) (\<lambda>bytes. Inr 0) = Inl (Err msg) \<and>
          Token
            (idManagerToken (Inr (Some \<lparr>Data = Some [''password'' \<mapsto> replicate 1000 CHR ''1'']\<rparr>))
               (\<lambda>secret. Inr ''a.b.c'') (\<lambda>payload. Inr payload) (\<lambda>bytes. Inr 0))
            0 CachedIMTokenSource = (Inl (Err msg), 1, CachedIMTokenSource) \<and>
          Token
            (idManagerToken (Inr (Some \<lparr>Data = Some [''password'' \<mapsto> replicate 1000 CHR ''1'']\<rparr>))
               (\<lambda>secret. Inr ''a.b.c'') (\<lambda>payload. Inr payload) (\<lambda>bytes. Inr 0))
            (71 * second)
            \<lparr>marginTime = 30 * second, token = Some \<lparr>AccessToken = ''t'', Expiry = 100 * second\<rparr>\<rparr>
            = (Inr \<lparr>AccessToken = ''t'', Expiry = 100 * second\<rparr>, 1,
               \<lparr>marginTime = 30 * second,
                token = Some \<lparr>AccessToken = ''t'', Expiry = 100 * second\<rparr>\<rparr>))"
proof -
  let ?ok = "[''username'' \<mapsto> replicate 999 CHR ''1'']"
  let ?big = "[''password'' \<mapsto> replicate 1000 CHR ''1'']"
  let ?src = "idManagerToken (Inr (Some \<lparr>Data = Some ?big\<rparr>))
               (\<lambda>secret. Inr ''a.b.c'') (\<lambda>payload. Inr payload) (\<lambda>bytes. Inr 0)"
  let ?old = "\<lparr>AccessToken = ''t'', Expiry = 100 * second\<rparr>"
  let ?ts = "\<lparr>marginTime = 30 * second, token = Some ?old\<rparr>"
  have accepted: "getIdManagerSecret (Inr (Some \<lparr>Data = Some ?ok\<rparr>)) =
     Inr \<lparr>username = replicate 999 CHR ''1'', password = [], realm = [], client_id = [],
          client_secret = []\<rparr>"
    using secret_limit [of ?ok] by (simp add: secretField_def)
  have big: "\<exists>key \<in> {''username'', ''password'', ''realm'', ''client_id'', ''client_secret''}.
       1000 \<le> length (secretField ?big key)"
    by (simp add: secretField_def)
  from secret_limit [of ?big "\<lambda>secret. Inr ''a.b.c''" "\<lambda>payload. Inr payload" "\<lambda>bytes. Inr 0"] big
  obtain msg where g: "getIdManagerSecret (Inr (Some \<lparr>Data = Some ?big\<rparr>)) = Inl (Err msg)"
    and src: "?src = Inl (Err msg)"
    and none: "\<forall>now ts. token ts = None \<longrightarrow> Token ?src now ts = (Inl (Err msg), 1, ts)"
    and stale: "\<forall>now ts old. token ts = Some old \<and> Expiry old - marginTime ts \<le> now \<longrightarrow>
         Token ?src now ts = (Inr old, 1, ts)"
    by blast
  have e: "Token ?src 0 CachedIMTokenSource = (Inl (Err msg), 1, CachedIMTokenSource)"
    using none [rule_format, of CachedIMTokenSource 0] by (simp add: CachedIMTokenSource_def)
  have s: "Token ?src (71 * second) ?ts = (Inr ?old, 1, ?ts)"
    using stale [rule_format, of ?ts ?old "71 * second"] by (simp add: second_def)
  show ?thesis
    by (rule conjI [OF accepted]) (intro exI [of _ msg] conjI, rule g, rule src, rule e, rule s)
qed

section \<open>Properties of the pools\<close>

text \<open>The increment of an \<open>int64\<close> below its greatest value, read as an integer.\<close>

lemma generation_next:
  fixes g :: "64 word"
  assumes "sint g < 2 ^ 63 - 1"
  shows "sint (g + 1) = sint g + 1"
proof -
  have lo: "- (2 ^ 63) \<le> sint g" using sint_ge [of g] by simp
  have "sint (g + 1) = signed_take_bit 63 (sint g + 1)"
    by (simp add: sint_word_add)
  also have "\<dots> = sint g + 1"
    using lo assms by (intro signed_take_bit_int_eq_self) simp_all
  finally show ?thesis .
qed

lemma map_of_update_same: "map_of (AList.update k v al) k = Some v"
  by (simp add: update_conv')

lemma Itoa_digit [simp]:
  "Itoa 0 = ''0''" "Itoa 1 = ''1''" "Itoa 2 = ''2''" "Itoa 3 = ''3''" "Itoa 4 = ''4''" "Itoa 8 = ''8''"
  by (simp_all add: Itoa_def utoa.simps digitChar_def)

text \<open>
  Claim C1. For a device of a tracked driver seen on a fabric with available count \<open>n\<close>,
  the step of diff-and-publish for that device: without a pool named
  \<open>k8sDeviceName-fabric<fabricID>\<close> it stores one of generation 1 with \<open>n\<close> entries named
  \<open>k8sDeviceName-gpu0\<close> to \<open>k8sDeviceName-gpu(n-1)\<close>; with a stored pool whose first slice has
  a number of entries other than \<open>n\<close> it stores the pool generated anew with the generation
  raised by 1; with a stored pool of \<open>n\<close> entries it changes nothing and reports no update.
\<close>

theorem pool_diff_publish:
  assumes dev: "deref s a = Some dev"
    and tracked: "map_of ndr (driverName dev) = Some pools"
  shows "(pools (k8sDeviceName dev @ ''-fabric'' @ Itoa fid) = None \<longrightarrow>
          (\<exists>ndr' pools' p.
             updateDevicePools prefix s fid [(model, a)] ndr {} = Inr (ndr', {driverName dev}) \<and>
             map_of ndr' (driverName dev) = Some pools' \<and>
             pools' (k8sDeviceName dev @ ''-fabric'' @ Itoa fid) = Some p \<and>
             Generation p = 1 \<and>
             (\<exists>entries. Slices p = [entries] \<and> length entries = nat (availableDeviceCount dev) \<and>
                map Name entries =
                  map (\<lambda>i. k8sDeviceName dev @ ''-gpu'' @ Itoa (int i))
                    [0 ..< nat (availableDeviceCount dev)]))) \<and>
         (\<forall>old entries more.
            pools (k8sDeviceName dev @ ''-fabric'' @ Itoa fid) = Some old \<and>
            Slices old = entries # more \<and> int (length entries) \<noteq> availableDeviceCount dev \<longrightarrow>
          (\<exists>ndr' pools' p.
             updateDevicePools prefix s fid [(model, a)] ndr {} = Inr (ndr', {driverName dev}) \<and>
             map_of ndr' (driverName dev) = Some pools' \<and>
             pools' (k8sDeviceName dev @ ''-fabric'' @ Itoa fid) = Some p \<and>
             p = generatePool prefix s dev fid (Generation old + 1) \<and>
             Generation p = Generation old + 1 \<and>
             (sint (Generation old) < 2 ^ 63 - 1 \<longrightarrow>
                sint (Generation p) = sint (Generation old) + 1) \<and>
             (\<exists>entries'. Slices p = [entries'] \<and> length entries' = nat (availableDeviceCount dev) \<and>
                map Name entries' =
                  map (\<lambda>i. k8sDeviceName dev @ ''-gpu'' @ Itoa (int i))
                    [0 ..< nat (availableDeviceCount dev)]))) \<and>
         (\<forall>old entries more.
            pools (k8sDeviceName dev @ ''-fabric'' @ Itoa fid) = Some old \<and>
            Slices old = entries # more \<and> int (length entries) = availableDeviceCount dev \<longrightarrow>
          updateDevicePools prefix s fid [(model, a)] ndr {} = Inr (ndr, {}))"
proof -
  have names: "map Name (map (poolDevice s dev) [0 ..< n]) =
      map (\<lambda>i. k8sDeviceName dev @ ''-gpu'' @ Itoa (int i)) [0 ..< n]" for n
    by (simp add: poolDevice_def)
  show ?thesis
    using dev tracked names
    by (auto simp: updatePool_def generatePool_def zeroPool_def map_of_update_same generation_next
        simp del: map_map split: list.splits)
qed

theorem pool_diff_publish_witness:
  "(\<exists>ndr' pools' p.
      updateDevicePools ''cohdi.io''
        \<lparr>devices = [\<lparr>k8sDeviceName = ''dev1'', driverName = ''d1'', draAttributes = None,
                      availableDeviceCount = 2, minDeviceCount = None, maxDeviceCount = None,
                      bindingTimeout = None\<rparr>],
         attrMaps = []\<rparr> 3 [(''DEVICE 1'', 0)] [(''d1'', Map.empty)] {} = Inr (ndr', {''d1''}) \<and>
      map_of ndr' ''d1'' = Some pools' \<and> pools' ''dev1-fabric3'' = Some p \<and> Generation p = 1 \<and>
      (\<exists>entries. Slices p = [entries] \<and> map Name entries = [''dev1-gpu0'', ''dev1-gpu1''])) \<and>
   (\<exists>ndr' pools' p.
      updateDevicePools ''cohdi.io''
        \<lparr>devices = [\<lparr>k8sDeviceName = ''dev1'', driverName = ''d1'', draAttributes = None,
                      availableDeviceCount = 2, minDeviceCount = None, maxDeviceCount = None,
                      bindingTimeout = None\<rparr>],
         attrMaps = []\<rparr> 3 [(''DEVICE 1'', 0)]
        [(''d1'', [''dev1-fabric3'' \<mapsto> \<lparr>NodeSelector = None, Slices = [[]], Generation = 7\<rparr>])] {}
        = Inr (ndr', {''d1''}) \<and>
      map_of ndr' ''d1'' = Some pools' \<and> pools' ''dev1-fabric3'' = Some p \<and> Generation p = 8 \<and>
      (\<exists>entries. Slices p = [entries] \<and> map Name entries = [''dev1-gpu0'', ''dev1-gpu1''])) \<and>
   updateDevicePools ''cohdi.io''
        \<lparr>devices = [\<lparr>k8sDeviceName = ''dev1'', driverName = ''d1'', draAttributes = None,
                      availableDeviceCount = 0, minDeviceCount = None, maxDeviceCount = None,
                      bindingTimeout = None\<rparr>],
         attrMaps = []\<rparr> 3 [(''DEVICE 1'', 0)]
        [(''d1'', [''dev1-fabric3'' \<mapsto> \<lparr>NodeSelector = None, Slices = [[]], Generation = 7\<rparr>])] {}
     = Inr ([(''d1'', [''dev1-fabric3'' \<mapsto> \<lparr>NodeSelector = None, Slices = [[]], Generation = 7\<rparr>])], {})"
proof -
  let ?dev = "\<lambda>n. \<lparr>k8sDeviceName = ''dev1'', driverName = ''d1'', draAttributes = None,
                      availableDeviceCount = n, minDeviceCount = None, maxDeviceCount = None,
                      bindingTimeout = None\<rparr>"
  let ?s = "\<lambda>n. \<lparr>devices = [?dev n], attrMaps = []\<rparr>"
  let ?old = "\<lparr>NodeSelector = None, Slices = [[]], Generation = 7\<rparr>"
  have d: "deref (?s n) 0 = Some (?dev n)" for n
    by (simp add: deref_def)
  have t1: "map_of [(''d1'', Map.empty :: driverResources)] (driverName (?dev 2)) = Some Map.empty"
    by simp
  have t2: "map_of [(''d1'', [''dev1-fabric3'' \<mapsto> ?old])] (driverName (?dev n))
      = Some [''dev1-fabric3'' \<mapsto> ?old]" for n
    by simp
  have two: "[0 ..< 2] = [0, 1::nat]"
    by (simp add: upt_rec)
  show ?thesis
    using pool_diff_publish [where fid = 3 and prefix = "''cohdi.io''" and model = "''DEVICE 1''", OF d t1]
      pool_diff_publish [where fid = 3 and prefix = "''cohdi.io''" and model = "''DEVICE 1''", OF d t2, of 2]
      pool_diff_publish [where fid = 3 and prefix = "''cohdi.io''" and model = "''DEVICE 1''", OF d t2, of 0]
    by (auto simp del: updateDevicePools.simps simp add: two)
qed

section \<open>Properties of the device lists\<close>



lemma update_fresh_key:
  "k \<notin> fst ` set al \<Longrightarrow> AList.update k v al = al @ [(k, v)]"
  by (induction al) auto


lemma DeepCopyLoop_old:
  "DeepCopyLoop s dl out = Inr (out', s') \<Longrightarrow> a < length (devices s) \<Longrightarrow> deref s' a = deref s a"
proof (induction dl arbitrary: s out)
  case Nil
  then show ?case by auto
next
  case (Cons p dl)
  obtain k b where p: "p = (k, b)" by (cases p)
  from Cons.prems p obtain d where d: "deref s b = Some d"
    by (auto split: option.splits)
  let ?s1 = "s\<lparr>devices := devices s @ [d]\<rparr>"
  from Cons.prems p d have run: "DeepCopyLoop ?s1 dl (AList.update k (length (devices s)) out) = Inr (out', s')"
    by (simp add: newDevice_def)
  have "deref s' a = deref ?s1 a"
    using Cons.IH [OF run] Cons.prems(2) by simp
  also have "\<dots> = deref s a"
    using Cons.prems(2) by (simp add: deref_def nth_append)
  finally show ?case .
qed

text \<open>The explicit result of the copy of a well-formed list with distinct keys.\<close>

lemma DeepCopyLoop_result:
  "\<forall>a \<in> snd ` set dl. a < length (devices s) \<Longrightarrow> distinct (map fst dl) \<Longrightarrow>
   fst ` set dl \<inter> fst ` set out = {} \<Longrightarrow>
   DeepCopyLoop s dl out =
     Inr (out @ zip (map fst dl) [length (devices s) ..< length (devices s) + length dl],
          s\<lparr>devices := devices s @ map (\<lambda>(k, a). devices s ! a) dl\<rparr>)"
proof (induction dl arbitrary: s out)
  case Nil
  then show ?case by simp
next
  case (Cons p dl)
  obtain k a where p: "p = (k, a)" by (cases p)
  let ?d = "devices s ! a"
  let ?s1 = "s\<lparr>devices := devices s @ [?d]\<rparr>"
  let ?o1 = "out @ [(k, length (devices s))]"
  from Cons.prems p have a: "a < length (devices s)" by simp
  from Cons.prems p have fresh: "k \<notin> fst ` set out" by auto
  have wf1: "\<forall>a \<in> snd ` set dl. a < length (devices ?s1)"
    using Cons.prems(1) by auto
  have d1: "distinct (map fst dl)" using Cons.prems(2) by simp
  have disj: "fst ` set dl \<inter> fst ` set ?o1 = {}"
    using Cons.prems(2,3) p by auto
  have same: "map (\<lambda>(k, a). devices ?s1 ! a) dl = map (\<lambda>(k, a). devices s ! a) dl"
    using Cons.prems(1) by (auto simp: nth_append)
  have upt: "[length (devices s) ..< Suc (length (devices s) + length dl)] =
      length (devices s) # [Suc (length (devices s)) ..< Suc (length (devices s) + length dl)]"
    by (subst upt_conv_Cons) simp_all
  have "DeepCopyLoop s (p # dl) out = DeepCopyLoop ?s1 dl ?o1"
    using a fresh p by (simp add: deref_def newDevice_def update_fresh_key)
  also have "\<dots> = Inr (?o1 @ zip (map fst dl) [length (devices ?s1) ..< length (devices ?s1) + length dl],
          ?s1\<lparr>devices := devices ?s1 @ map (\<lambda>(k, a). devices ?s1 ! a) dl\<rparr>)"
    by (rule Cons.IH [OF wf1 d1 disj])
  also have "\<dots> = Inr (out @ zip (map fst (p # dl)) [length (devices s) ..< length (devices s) + length (p # dl)],
          s\<lparr>devices := devices s @ map (\<lambda>(k, a). devices s ! a) (p # dl)\<rparr>)"
    using p same by (simp add: upt del: upt_Suc)
  finally show ?case .
qed

lemma assignAttr_visible:
  assumes "assignAttr s ref key v = Inr s''"
  shows "devices s'' = devices s \<and> map_of (readAttrs s'' ref) key = Some v"
  using assms
  by (auto simp: assignAttr_def readAttrs_def update_conv' split: option.splits if_splits)

text \<open>
  Claim C10. \<open>DeepCopy\<close> of a device list gives a list with the same keys whose device
  records are new, equal field by field to the originals, the reference \<open>draAttributes\<close>
  included: no map of attributes is allocated. So an assignment through the map of a
  copy is read through the original and through every record that holds the same
  reference, while the replacement of the fields \<open>minDeviceCount\<close>, \<open>maxDeviceCount\<close> and
  \<open>bindingTimeout\<close> of a copy leaves every original record as it was.
\<close>

theorem DeepCopy_aliasing:
  assumes wf: "\<forall>a \<in> snd ` set dl. a < length (devices s)"
    and keys: "distinct (map fst dl)"
  shows "\<exists>out s'. DeepCopy s dl = Inr (out, s') \<and>
      map fst out = map fst dl \<and>
      map snd out = [length (devices s) ..< length (devices s) + length dl] \<and>
      attrMaps s' = attrMaps s \<and>
      (\<forall>a < length (devices s). deref s' a = deref s a) \<and>
      (\<forall>i < length dl. deref s' (snd (out ! i)) = deref s (snd (dl ! i))) \<and>
      (\<forall>i < length dl. \<forall>cp key v s''.
          deref s' (snd (out ! i)) = Some cp \<and> assignAttr s' (draAttributes cp) key v = Inr s'' \<longrightarrow>
          (\<exists>orig. deref s'' (snd (dl ! i)) = Some orig \<and> draAttributes orig = draAttributes cp) \<and>
          (\<forall>b d. deref s'' b = Some d \<and> draAttributes d = draAttributes cp \<longrightarrow>
             map_of (readAttrs s'' (draAttributes d)) key = Some v)) \<and>
      (\<forall>i < length dl. \<forall>cp mn mx bt.
          deref s' (snd (out ! i)) = Some cp \<longrightarrow>
          (\<forall>a < length (devices s).
             deref (writeDevice s' (snd (out ! i))
                      (cp\<lparr>minDeviceCount := mn, maxDeviceCount := mx, bindingTimeout := bt\<rparr>)) a
             = deref s a))"
proof -
  let ?n = "length (devices s)"
  let ?out = "zip (map fst dl) [?n ..< ?n + length dl]"
  let ?s' = "s\<lparr>devices := devices s @ map (\<lambda>(k, a). devices s ! a) dl\<rparr>"
  have run: "DeepCopy s dl = Inr (?out, ?s')"
    using DeepCopyLoop_result [OF wf keys, of "[]"] by (simp add: DeepCopy_def)
  have addr: "snd (?out ! i) = ?n + i" if "i < length dl" for i
    using that by simp
  have old: "deref ?s' a = deref s a" if "a < ?n" for a
    using that by (simp add: deref_def nth_append)
  have orig_in: "snd (dl ! i) < ?n" if "i < length dl" for i
    using wf that by (metis imageI nth_mem)
  have copy: "deref ?s' (snd (?out ! i)) = deref s (snd (dl ! i))" if "i < length dl" for i
    using that orig_in [OF that]
    by (simp add: addr deref_def nth_append case_prod_beta)
  have shared_map: "(\<exists>orig. deref s'' (snd (dl ! i)) = Some orig \<and> draAttributes orig = draAttributes cp) \<and>
          (\<forall>b d. deref s'' b = Some d \<and> draAttributes d = draAttributes cp \<longrightarrow>
             map_of (readAttrs s'' (draAttributes d)) key = Some v)"
    if i: "i < length dl" and cp: "deref ?s' (snd (?out ! i)) = Some cp"
      and put: "assignAttr ?s' (draAttributes cp) key v = Inr s''" for i cp key v s''
  proof -
    from assignAttr_visible [OF put]
    have dv: "devices s'' = devices ?s'"
      and vis: "map_of (readAttrs s'' (draAttributes cp)) key = Some v"
      by blast+
    have "deref s'' (snd (dl ! i)) = deref ?s' (snd (dl ! i))"
      using dv by (simp add: deref_def)
    also have "\<dots> = deref s (snd (dl ! i))"
      by (rule old [OF orig_in [OF i]])
    also have "\<dots> = Some cp"
      using copy [OF i] cp by simp
    finally have "deref s'' (snd (dl ! i)) = Some cp" .
    with vis show ?thesis by auto
  qed
  have repl: "deref (writeDevice ?s' (snd (?out ! i)) d') a = deref s a"
    if "i < length dl" and "a < ?n" for i d' a
    using that by (simp add: addr writeDevice_def deref_def nth_append)
  show ?thesis
    apply (rule exI [of _ ?out], rule exI [of _ ?s'])
    apply (intro conjI allI impI)
           apply (rule run)
          apply simp
         apply simp
        apply simp
       apply (erule old)
      apply (erule copy)
     apply (rule shared_map [THEN conjunct1], assumption, blast, blast)
    apply (rule shared_map [THEN conjunct2, rule_format], assumption, blast, blast, blast)
    apply (erule repl, assumption)
    done
qed

theorem DeepCopy_aliasing_witness:
  "\<exists>out s' s''.
     DeepCopy
       \<lparr>devices = [\<lparr>k8sDeviceName = ''dev1'', driverName = ''d1'', draAttributes = Some 0,
                     availableDeviceCount = 4, minDeviceCount = None, maxDeviceCount = None,
                     bindingTimeout = None\<rparr>],
        attrMaps = [[(''productName'', ''TEST DEVICE 1'')]]\<rparr>
       [(''DEVICE 1'', 0)] = Inr (out, s') \<and>
     map fst out = [''DEVICE 1''] \<and> map snd out = [1] \<and>
     deref s' 1 = Some \<lparr>k8sDeviceName = ''dev1'', driverName = ''d1'', draAttributes = Some 0,
                     availableDeviceCount = 4, minDeviceCount = None, maxDeviceCount = None,
                     bindingTimeout = None\<rparr> \<and>
     assignAttr s' (Some 0) ''productName'' ''CHANGED'' = Inr s'' \<and>
     (\<exists>orig. deref s'' 0 = Some orig \<and>
        map_of (readAttrs s'' (draAttributes orig)) ''productName'' = Some ''CHANGED'') \<and>
     deref (writeDevice s' 1
              \<lparr>k8sDeviceName = ''dev1'', driverName = ''d1'', draAttributes = Some 0,
               availableDeviceCount = 4, minDeviceCount = Some 1, maxDeviceCount = Some 8,
               bindingTimeout = Some 600\<rparr>) 0
       = Some \<lparr>k8sDeviceName = ''dev1'', driverName = ''d1'', draAttributes = Some 0,
               availableDeviceCount = 4, minDeviceCount = None, maxDeviceCount = None,
               bindingTimeout = None\<rparr>"
proof -
  let ?d = "\<lparr>k8sDeviceName = ''dev1'', driverName = ''d1'', draAttributes = Some 0,
                     availableDeviceCount = 4, minDeviceCount = None, maxDeviceCount = None,
                     bindingTimeout = None\<rparr>"
  let ?s = "\<lparr>devices = [?d], attrMaps = [[(''productName'', ''TEST DEVICE 1'')]]\<rparr>"
  let ?dl = "[(''DEVICE 1'', 0::nat)]"
  have h1: "\<forall>a \<in> snd ` set ?dl. a < length (devices ?s)" by simp
  have h2: "distinct (map fst ?dl)" by simp
  from DeepCopy_aliasing [OF h1 h2]
  obtain out s' where run: "DeepCopy ?s ?dl = Inr (out, s')"
    and keys: "map fst out = map fst ?dl"
    and addrs: "map snd out = [length (devices ?s) ..< length (devices ?s) + length ?dl]"
    and maps: "attrMaps s' = attrMaps ?s"
    and copy: "\<forall>i < length ?dl. deref s' (snd (out ! i)) = deref ?s (snd (?dl ! i))"
    and shared_map: "\<forall>i < length ?dl. \<forall>cp key v s''.
          deref s' (snd (out ! i)) = Some cp \<and> assignAttr s' (draAttributes cp) key v = Inr s'' \<longrightarrow>
          (\<exists>orig. deref s'' (snd (?dl ! i)) = Some orig \<and> draAttributes orig = draAttributes cp) \<and>
          (\<forall>b d. deref s'' b = Some d \<and> draAttributes d = draAttributes cp \<longrightarrow>
             map_of (readAttrs s'' (draAttributes d)) key = Some v)"
    and fields: "\<forall>i < length ?dl. \<forall>cp mn mx bt.
          deref s' (snd (out ! i)) = Some cp \<longrightarrow>
          (\<forall>a < length (devices ?s).
             deref (writeDevice s' (snd (out ! i))
                      (cp\<lparr>minDeviceCount := mn, maxDeviceCount := mx, bindingTimeout := bt\<rparr>)) a
             = deref ?s a)"
    by blast
  from addrs have a1: "map snd out = [1]" by simp
  with keys have o: "out = [(''DEVICE 1'', 1)]"
    by (cases out) auto
  from copy o have c1: "deref s' 1 = Some ?d" by (simp add: deref_def)
  let ?s'' = "s'\<lparr>attrMaps := [[(''productName'', ''CHANGED'')]]\<rparr>"
  have put: "assignAttr s' (Some 0) ''productName'' ''CHANGED'' = Inr ?s''"
    using maps by (simp add: assignAttr_def)
  from shared_map [rule_format, of 0 ?d "''productName''" "''CHANGED''" ?s''] c1 o put
  have vis: "\<exists>orig. deref ?s'' 0 = Some orig \<and>
        map_of (readAttrs ?s'' (draAttributes orig)) ''productName'' = Some ''CHANGED''"
    by auto
  from fields [rule_format, where i = 0 and cp = ?d and a = 0 and mn = "Some 1" and mx = "Some 8"
      and bt = "Some 600"] c1 o
  have repl: "deref (writeDevice s' 1
              \<lparr>k8sDeviceName = ''dev1'', driverName = ''d1'', draAttributes = Some 0,
               availableDeviceCount = 4, minDeviceCount = Some 1, maxDeviceCount = Some 8,
               bindingTimeout = Some 600\<rparr>) 0 = Some ?d"
    by (simp add: deref_def)
  from keys have k1: "map fst out = [''DEVICE 1'']" by simp
  show ?thesis
    by (intro exI [of _ out] exI [of _ s'] exI [of _ ?s''] conjI)
      (rule run, rule k1, rule a1, rule c1, rule put, rule vis, rule repl)
qed



















section \<open>Properties of the pass\<close>

lemma createMachines_skip:
  "map (\<lambda>mach. (nodeName mach, machineUUID mach)) (createMachines cm mList ngInfos muuids) =
     filter (\<lambda>(name, muuid). getFabricID mList muuid \<noteq> None) muuids"
  by (induction muuids) (auto split: option.splits)

lemma createMachines_fabric:
  "mach \<in> set (createMachines cm mList ngInfos muuids) \<Longrightarrow>
     getFabricID mList (machineUUID mach) = Some (fabricID mach)"
  by (induction muuids) (auto split: option.splits)

lemma copyToMachines_names:
  "copyToMachines s fid dl machines = Inr (machines', s') \<Longrightarrow>
     map (\<lambda>mach. (nodeName mach, machineUUID mach, fabricID mach, nodeGroupUUID mach)) machines' =
     map (\<lambda>mach. (nodeName mach, machineUUID mach, fabricID mach, nodeGroupUUID mach)) machines"
  by (induction machines arbitrary: s machines' s') (auto split: sum.splits if_splits)

lemma copyDeviceLists_names:
  "copyDeviceLists s fabricFound machines = Inr (machines', s') \<Longrightarrow>
     map (\<lambda>mach. (nodeName mach, machineUUID mach, fabricID mach, nodeGroupUUID mach)) machines' =
     map (\<lambda>mach. (nodeName mach, machineUUID mach, fabricID mach, nodeGroupUUID mach)) machines"
proof (induction fabricFound arbitrary: s machines)
  case Nil
  then show ?case by simp
next
  case (Cons p fabricFound)
  obtain fid dl where p: "p = (fid, dl)" by (cases p)
  from Cons.prems p obtain ms1 s1 where one: "copyToMachines s fid dl machines = Inr (ms1, s1)"
    and run: "copyDeviceLists s1 fabricFound ms1 = Inr (machines', s')"
    by (auto split: sum.splits)
  show ?case using Cons.IH [OF run] copyToMachines_names [OF one] by simp
qed

lemma assembleMachines_names:
  assumes "assembleMachines env m s = Inr (machines, s')"
  shows "\<exists>muuids mList. getMachineUUIDs env m = Inr muuids \<and> getMachineList env = Inr mList \<and>
      map (\<lambda>mach. (nodeName mach, machineUUID mach)) machines =
        filter (\<lambda>(name, muuid). getFabricID mList muuid \<noteq> None) muuids"
proof -
  from assms obtain muuids mList ngInfos fabricFound s1 s2
    where u: "getMachineUUIDs env m = Inr muuids" and l: "getMachineList env = Inr mList"
      and c: "copyDeviceLists s1 fabricFound (createMachines (useCM (cdiOptions m)) mList ngInfos muuids)
                = Inr (machines, s2)"
    by (auto simp: assembleMachines_def Let_def split: sum.splits if_splits prod.splits)
  from copyDeviceLists_names [OF c]
  have "map (\<lambda>mach. (nodeName mach, machineUUID mach)) machines =
        map (\<lambda>mach. (nodeName mach, machineUUID mach)) (createMachines (useCM (cdiOptions m)) mList ngInfos muuids)"
    by (auto simp: list_eq_iff_nth_eq)
  with u l show ?thesis by (auto simp: createMachines_skip)
qed

text \<open>
  Claim C7. The pass fails with an error when the map from node names to machine UUIDs
  is empty, and when no machine has a fabric id in the machine list; a machine without a
  fabric id is skipped by the loop that creates the machines, and a pass that succeeds
  has worked on exactly the machines that have one.
\<close>

theorem pass_machines:
  "(getMachineUUIDs env m = Inr [] \<longrightarrow>
      startCheckResourcePoolLoop env m s = Inl (Err ''not any machine uuid is found'')) \<and>
   (\<forall>muuids mList.
      getMachineUUIDs env m = Inr muuids \<and> muuids \<noteq> [] \<and> getMachineList env = Inr mList \<and>
      (useCM (cdiOptions m) \<longrightarrow>
         (\<exists>nodeGroups ngInfos. getNodeGroups env = Inr nodeGroups \<and>
            nodeGroupInfos env nodeGroups = Inr ngInfos)) \<and>
      (\<forall>(name, muuid) \<in> set muuids. getFabricID mList muuid = None) \<longrightarrow>
      startCheckResourcePoolLoop env m s = Inl (Err ''not any machine is found to process'')) \<and>
   (\<forall>muuids mList.
      getMachineUUIDs env m = Inr muuids \<and> getMachineList env = Inr mList \<and>
      (\<forall>(name, muuid) \<in> set muuids. getFabricID mList muuid = None) \<longrightarrow>
      (\<exists>err. startCheckResourcePoolLoop env m s = Inl err)) \<and>
   (\<forall>name muuid rest. getFabricID mList muuid = None \<longrightarrow>
      createMachines cm mList ngInfos ((name, muuid) # rest) = createMachines cm mList ngInfos rest) \<and>
   (\<forall>r. startCheckResourcePoolLoop env m s = Inr r \<longrightarrow>
      (\<exists>muuids mList. getMachineUUIDs env m = Inr muuids \<and> getMachineList env = Inr mList \<and>
         map (\<lambda>mach. (nodeName mach, machineUUID mach)) (passMachines r) =
           filter (\<lambda>(name, muuid). getFabricID mList muuid \<noteq> None) muuids))"
proof (intro conjI allI impI)
  assume "getMachineUUIDs env m = Inr []"
  then show "startCheckResourcePoolLoop env m s = Inl (Err ''not any machine uuid is found'')"
    by (simp add: startCheckResourcePoolLoop_def assembleMachines_def)
next
  fix muuids mList
  assume a: "getMachineUUIDs env m = Inr muuids \<and> muuids \<noteq> [] \<and> getMachineList env = Inr mList \<and>
      (useCM (cdiOptions m) \<longrightarrow>
         (\<exists>nodeGroups ngInfos. getNodeGroups env = Inr nodeGroups \<and>
            nodeGroupInfos env nodeGroups = Inr ngInfos)) \<and>
      (\<forall>(name, muuid) \<in> set muuids. getFabricID mList muuid = None)"
  then have "filter (\<lambda>(name, muuid). getFabricID mList muuid \<noteq> None) muuids = []"
    by (auto simp: filter_empty_conv)
  then have none: "createMachines cm mList ngInfos muuids = []" for cm ngInfos
    using createMachines_skip [of cm mList ngInfos muuids] by simp
  show "startCheckResourcePoolLoop env m s = Inl (Err ''not any machine is found to process'')"
    using a none by (auto simp: startCheckResourcePoolLoop_def assembleMachines_def)
next
  fix muuids mList
  assume a: "getMachineUUIDs env m = Inr muuids \<and> getMachineList env = Inr mList \<and>
      (\<forall>(name, muuid) \<in> set muuids. getFabricID mList muuid = None)"
  then have "filter (\<lambda>(name, muuid). getFabricID mList muuid \<noteq> None) muuids = []"
    by (auto simp: filter_empty_conv)
  then have none: "createMachines cm mList ngInfos muuids = []" for cm ngInfos
    using createMachines_skip [of cm mList ngInfos muuids] by simp
  show "\<exists>err. startCheckResourcePoolLoop env m s = Inl err"
    using a none
    by (auto simp: startCheckResourcePoolLoop_def assembleMachines_def split: sum.splits)
next
  fix name muuid rest
  assume "getFabricID mList muuid = None"
  then show "createMachines cm mList ngInfos ((name, muuid) # rest) = createMachines cm mList ngInfos rest"
    by simp
next
  fix r
  assume "startCheckResourcePoolLoop env m s = Inr r"
  then obtain s' where "assembleMachines env m s = Inr (passMachines r, s')"
    by (auto simp: startCheckResourcePoolLoop_def split: sum.splits prod.splits)
  then show "\<exists>muuids mList. getMachineUUIDs env m = Inr muuids \<and> getMachineList env = Inr mList \<and>
         map (\<lambda>mach. (nodeName mach, machineUUID mach)) (passMachines r) =
           filter (\<lambda>(name, muuid). getFabricID mList muuid \<noteq> None) muuids"
    by (rule assembleMachines_names)
qed

theorem pass_machines_witness:
  "startCheckResourcePoolLoop
     \<lparr>ListProviderIDs = Inr [],
      FindNodeNameByProviderID = (\<lambda>providerID. Inr (''node-'' @ providerID)),
      FindMachineUUIDByProviderID = (\<lambda>providerID. Inr providerID),
      GetFMMachineList = Inr [],
      GetFMAvailableReservedResources = (\<lambda>muuid model. Inr 4),
      GetCMNodeGroups = Inr [],
      GetCMNodeGroupInfo = (\<lambda>nodeGroup. Inr \<lparr>UUID = UUID nodeGroup, MachineIDs = []\<rparr>),
      GetCMNodeDetails = (\<lambda>muuid. Inr []),
      GetNode = (\<lambda>name. Inr None),
      UpdateNode = (\<lambda>node. None)\<rparr>
     \<lparr>namedDriverResources = [], deviceInfos = [], labelPrefix = ''cohdi.io'',
      cdiOptions = \<lparr>useCapiBmh = False, useCM = False, bindingTimeoutOpt = None\<rparr>\<rparr>
     \<lparr>devices = [], attrMaps = []\<rparr>
     = Inl (Err ''not any machine uuid is found'') \<and>
   startCheckResourcePoolLoop
     \<lparr>ListProviderIDs = Inr [''M3''],
      FindNodeNameByProviderID = (\<lambda>providerID. Inr (''node-'' @ providerID)),
      FindMachineUUIDByProviderID = (\<lambda>providerID. Inr providerID),
      GetFMMachineList = Inr [\<lparr>MachineUUID = ''M3'', FabricID = None\<rparr>],
      GetFMAvailableReservedResources = (\<lambda>muuid model. Inr 4),
      GetCMNodeGroups = Inr [],
      GetCMNodeGroupInfo = (\<lambda>nodeGroup. Inr \<lparr>UUID = UUID nodeGroup, MachineIDs = []\<rparr>),
      GetCMNodeDetails = (\<lambda>muuid. Inr []),
      GetNode = (\<lambda>name. Inr None),
      UpdateNode = (\<lambda>node. None)\<rparr>
     \<lparr>namedDriverResources = [], deviceInfos = [], labelPrefix = ''cohdi.io'',
      cdiOptions = \<lparr>useCapiBmh = False, useCM = False, bindingTimeoutOpt = None\<rparr>\<rparr>
     \<lparr>devices = [], attrMaps = []\<rparr>
     = Inl (Err ''not any machine is found to process'') \<and>
   (\<exists>r. startCheckResourcePoolLoop
     \<lparr>ListProviderIDs = Inr [''M1'', ''M3''],
      FindNodeNameByProviderID = (\<lambda>providerID. Inr (''node-'' @ providerID)),
      FindMachineUUIDByProviderID = (\<lambda>providerID. Inr providerID),
      GetFMMachineList = Inr [\<lparr>MachineUUID = ''M1'', FabricID = Some 3\<rparr>,
                              \<lparr>MachineUUID = ''M3'', FabricID = None\<rparr>],
      GetFMAvailableReservedResources = (\<lambda>muuid model. Inr 4),
      GetCMNodeGroups = Inr [],
      GetCMNodeGroupInfo = (\<lambda>nodeGroup. Inr \<lparr>UUID = UUID nodeGroup, MachineIDs = []\<rparr>),
      GetCMNodeDetails = (\<lambda>muuid. Inr []),
      GetNode = (\<lambda>name. Inr None),
      UpdateNode = (\<lambda>node. None)\<rparr>
     \<lparr>namedDriverResources = [], deviceInfos = [], labelPrefix = ''cohdi.io'',
      cdiOptions = \<lparr>useCapiBmh = False, useCM = False, bindingTimeoutOpt = None\<rparr>\<rparr>
     \<lparr>devices = [], attrMaps = []\<rparr> = Inr r \<and>
     map (\<lambda>mach. (nodeName mach, machineUUID mach)) (passMachines r) = [(''node-M1'', ''M1'')])"
proof -
  let ?env = "\<lambda>ids mList. \<lparr>ListProviderIDs = Inr ids,
      FindNodeNameByProviderID = (\<lambda>providerID. Inr (''node-'' @ providerID)),
      FindMachineUUIDByProviderID = (\<lambda>providerID. Inr providerID),
      GetFMMachineList = Inr mList,
      GetFMAvailableReservedResources = (\<lambda>muuid model. Inr 4),
      GetCMNodeGroups = Inr [],
      GetCMNodeGroupInfo = (\<lambda>nodeGroup. Inr \<lparr>UUID = UUID nodeGroup, MachineIDs = []\<rparr>),
      GetCMNodeDetails = (\<lambda>muuid. Inr []),
      GetNode = (\<lambda>name. Inr None),
      UpdateNode = (\<lambda>node. None)\<rparr>"
  let ?m = "\<lparr>namedDriverResources = [], deviceInfos = [], labelPrefix = ''cohdi.io'',
      cdiOptions = \<lparr>useCapiBmh = False, useCM = False, bindingTimeoutOpt = None\<rparr>\<rparr>"
  let ?s = "\<lparr>devices = [], attrMaps = []\<rparr>"
  let ?l2 = "[\<lparr>MachineUUID = ''M3'', FabricID = None\<rparr>]"
  let ?l3 = "[\<lparr>MachineUUID = ''M1'', FabricID = Some 3\<rparr>, \<lparr>MachineUUID = ''M3'', FabricID = None\<rparr>]"
  have u1: "getMachineUUIDs (?env [] []) ?m = Inr []"
    by (simp add: getMachineUUIDs_def)
  have u2: "getMachineUUIDs (?env [''M3''] ?l2) ?m = Inr [(''node-M3'', ''M3'')]"
    by (simp add: getMachineUUIDs_def)
  have u3: "getMachineUUIDs (?env [''M1'', ''M3''] ?l3) ?m = Inr [(''node-M1'', ''M1''), (''node-M3'', ''M3'')]"
    by (simp add: getMachineUUIDs_def)
  have l2: "getMachineList (?env [''M3''] ?l2) = Inr ?l2"
    and l3: "getMachineList (?env [''M1'', ''M3''] ?l3) = Inr ?l3"
    by (simp_all add: getMachineList_def)
  have run: "\<exists>r. startCheckResourcePoolLoop (?env [''M1'', ''M3''] ?l3) ?m ?s = Inr r"
    by (simp add: startCheckResourcePoolLoop_def assembleMachines_def getMachineUUIDs_def
        getMachineList_def DeepCopy_def manageCDIResourceSlices_def)
  then obtain r where r: "startCheckResourcePoolLoop (?env [''M1'', ''M3''] ?l3) ?m ?s = Inr r" ..
  have first: "startCheckResourcePoolLoop (?env [] []) ?m ?s = Inl (Err ''not any machine uuid is found'')"
    using pass_machines [of "?env [] []" ?m ?s] u1 by blast
  have second: "startCheckResourcePoolLoop (?env [''M3''] ?l2) ?m ?s
      = Inl (Err ''not any machine is found to process'')"
    using pass_machines [of "?env [''M3''] ?l2" ?m ?s] u2 l2 by simp
  from pass_machines [of "?env [''M1'', ''M3''] ?l3" ?m ?s] r u3 l3
  have "map (\<lambda>mach. (nodeName mach, machineUUID mach)) (passMachines r) =
      filter (\<lambda>(name, muuid). getFabricID ?l3 muuid \<noteq> None) [(''node-M1'', ''M1''), (''node-M3'', ''M3'')]"
    by fastforce
  then have third: "map (\<lambda>mach. (nodeName mach, machineUUID mach)) (passMachines r) = [(''node-M1'', ''M1'')]"
    by simp
  from r third have ex: "\<exists>r. startCheckResourcePoolLoop (?env [''M1'', ''M3''] ?l3) ?m ?s = Inr r \<and>
      map (\<lambda>mach. (nodeName mach, machineUUID mach)) (passMachines r) = [(''node-M1'', ''M1'')]"
    by (intro exI [of _ r] conjI)
  show ?thesis
    by (rule conjI [OF first conjI [OF second ex]])
qed

text \<open>
  Claim C5 asks that a machine found in no node group keeps \<open>minDeviceCount\<close> and
  \<open>maxDeviceCount\<close> unset. The source gives such a machine the empty node-group UUID and
  then treats the empty UUID as a node group of its own: the bounds are asked for the
  machine and written to its device. Here the machine \<open>M1\<close> is in no node group, the
  node details of the cluster manager carry the bounds 1 and 8, and the device of \<open>M1\<close>
  ends with both set.
\<close>

theorem ungrouped_machine_bounds:
  "foundInNodeGroup [\<lparr>UUID = ''G1'', MachineIDs = [''M2'']\<rparr>] ''M1'' = None \<and>
   assembleMachines
     \<lparr>ListProviderIDs = Inr [''M1''],
      FindNodeNameByProviderID = (\<lambda>providerID. Inr (''node-'' @ providerID)),
      FindMachineUUIDByProviderID = (\<lambda>providerID. Inr providerID),
      GetFMMachineList = Inr [\<lparr>MachineUUID = ''M1'', FabricID = Some 3\<rparr>],
      GetFMAvailableReservedResources = (\<lambda>muuid model. Inr 4),
      GetCMNodeGroups = Inr [\<lparr>UUID = ''G1''\<rparr>],
      GetCMNodeGroupInfo = (\<lambda>nodeGroup. Inr \<lparr>UUID = UUID nodeGroup, MachineIDs = [''M2'']\<rparr>),
      GetCMNodeDetails = (\<lambda>muuid. Inr [\<lparr>Conditions = [\<lparr>Column = ''model'', CondOperator = ''eq'',
                                                         Value = ''DEVICE 1''\<rparr>],
                                          MinResSpecCount = Some 1, MaxResSpecCount = Some 8\<rparr>]),
      GetNode = (\<lambda>name. Inr None),
      UpdateNode = (\<lambda>node. None)\<rparr>
     \<lparr>namedDriverResources = [(''d1'', Map.empty)],
      deviceInfos = [\<lparr>CDIModelName = ''DEVICE 1'', DRAAttributes = None, DriverName = ''d1'',
                      K8sDeviceName = ''dev1''\<rparr>],
      labelPrefix = ''cohdi.io'',
      cdiOptions = \<lparr>useCapiBmh = False, useCM = True, bindingTimeoutOpt = None\<rparr>\<rparr>
     \<lparr>devices = [], attrMaps = []\<rparr>
   = Inr ([\<lparr>nodeName = ''node-M1'', machineUUID = ''M1'', fabricID = 3,
            deviceList = [(''DEVICE 1'', 1)], nodeGroupUUID = []\<rparr>],
          \<lparr>devices =
             [\<lparr>k8sDeviceName = ''dev1'', driverName = ''d1'', draAttributes = None,
               availableDeviceCount = 4, minDeviceCount = None, maxDeviceCount = None,
               bindingTimeout = None\<rparr>,
              \<lparr>k8sDeviceName = ''dev1'', driverName = ''d1'', draAttributes = None,
               availableDeviceCount = 4, minDeviceCount = Some 1, maxDeviceCount = Some 8,
               bindingTimeout = None\<rparr>],
           attrMaps = []\<rparr>)"
  by (simp add: foundInNodeGroup_def assembleMachines_def getMachineUUIDs_def getMachineList_def
      getNodeGroups_def getNodeGroupInfo_def getAvailableNums_def getMinMaxNums_def
      minMaxOfResSpec_def minMaxOfCondition_def newDevice_def deref_def writeDevice_def
      DeepCopy_def setMinDeviceCount_def setMaxDeviceCount_def)

section \<open>Properties of the node labels\<close>

lemma utoa_nonempty: "utoa n \<noteq> []"
  by (subst utoa.simps) simp

lemma Itoa_nonempty: "Itoa i \<noteq> []" "[] \<noteq> Itoa i"
  using utoa_nonempty [of "nat i"] utoa_nonempty [of "nat (- i)"] by (auto simp: Itoa_def)

lemma size_key_inject:
  "prefix @ ''/'' @ n1 @ suffix = prefix @ ''/'' @ n2 @ suffix \<longleftrightarrow> n1 = n2"
  by simp

lemma max_key_not_min_key:
  "prefix @ ''/'' @ n1 @ ''-size-max'' \<noteq> prefix @ ''/'' @ n2 @ ''-size-min''"
  by (simp add: append_eq_append_conv)

lemma fabric_key_not_size_key:
  "prefix @ ''/'' @ ''fabric'' \<noteq> prefix @ ''/'' @ n @ ''-size-max''"
  "prefix @ ''/'' @ ''fabric'' \<noteq> prefix @ ''/'' @ n @ ''-size-min''"
  by (auto dest: arg_cong [where f = length])

lemma writesOn_append: "writesOn key (ws @ ws') = writesOn key ws @ writesOn key ws'"
  by (simp add: writesOn_def)

lemma labelMax_other:
  "key \<noteq> prefix @ ''/'' @ k8sDeviceName dev @ ''-size-max'' \<Longrightarrow>
     fst (labelMax prefix dev st) key = fst st key \<and>
     writesOn key (snd (labelMax prefix dev st)) = writesOn key (snd st)"
  by (auto simp: labelMax_def setLabel_def deleteLabel_def writesOn_def Let_def split: option.splits)

lemma labelMin_other:
  "key \<noteq> prefix @ ''/'' @ k8sDeviceName dev @ ''-size-min'' \<Longrightarrow>
     fst (labelMin prefix dev st) key = fst st key \<and>
     writesOn key (snd (labelMin prefix dev st)) = writesOn key (snd st)"
  by (auto simp: labelMin_def setLabel_def deleteLabel_def writesOn_def Let_def split: option.splits)

lemma labelMax_own:
  "fst (labelMax prefix dev st) (prefix @ ''/'' @ k8sDeviceName dev @ ''-size-max'')
     = map_option Itoa (maxDeviceCount dev) \<and>
   writesOn (prefix @ ''/'' @ k8sDeviceName dev @ ''-size-max'') (snd (labelMax prefix dev st)) =
     writesOn (prefix @ ''/'' @ k8sDeviceName dev @ ''-size-max'') (snd st) @
     sizeLabelWrites (prefix @ ''/'' @ k8sDeviceName dev @ ''-size-max'') (maxDeviceCount dev)
       (labelValue (fst st) (prefix @ ''/'' @ k8sDeviceName dev @ ''-size-max''))"
  by (auto simp: labelMax_def setLabel_def deleteLabel_def writesOn_def Let_def labelValue_def
      sizeLabelWrites_def Itoa_nonempty split: option.splits)

lemma labelMin_own:
  "fst (labelMin prefix dev st) (prefix @ ''/'' @ k8sDeviceName dev @ ''-size-min'')
     = map_option Itoa (minDeviceCount dev) \<and>
   writesOn (prefix @ ''/'' @ k8sDeviceName dev @ ''-size-min'') (snd (labelMin prefix dev st)) =
     writesOn (prefix @ ''/'' @ k8sDeviceName dev @ ''-size-min'') (snd st) @
     sizeLabelWrites (prefix @ ''/'' @ k8sDeviceName dev @ ''-size-min'') (minDeviceCount dev)
       (labelValue (fst st) (prefix @ ''/'' @ k8sDeviceName dev @ ''-size-min''))"
  by (auto simp: labelMin_def setLabel_def deleteLabel_def writesOn_def Let_def labelValue_def
      sizeLabelWrites_def Itoa_nonempty split: option.splits)

text \<open>A key that is the size label of no device of the list is left alone by the loop.\<close>

lemma labelDevices_other:
  "labelDevices prefix s dl st = Inr st' \<Longrightarrow>
   \<forall>(model, a) \<in> set dl. \<forall>dev. deref s a = Some dev \<longrightarrow>
      key \<noteq> prefix @ ''/'' @ k8sDeviceName dev @ ''-size-max'' \<and>
      key \<noteq> prefix @ ''/'' @ k8sDeviceName dev @ ''-size-min'' \<Longrightarrow>
   fst st' key = fst st key \<and> writesOn key (snd st') = writesOn key (snd st)"
proof (induction dl arbitrary: st)
  case Nil
  then show ?case by simp
next
  case (Cons p dl)
  obtain model a where p: "p = (model, a)" by (cases p)
  from Cons.prems(1) p obtain dev where dev: "deref s a = Some dev"
    and run: "labelDevices prefix s dl (labelMin prefix dev (labelMax prefix dev st)) = Inr st'"
    by (auto split: option.splits)
  from Cons.prems(2) p dev have k: "key \<noteq> prefix @ ''/'' @ k8sDeviceName dev @ ''-size-max''"
    "key \<noteq> prefix @ ''/'' @ k8sDeviceName dev @ ''-size-min''"
    by auto
  from Cons.prems(2) have rest: "\<forall>(model, a) \<in> set dl. \<forall>dev. deref s a = Some dev \<longrightarrow>
      key \<noteq> prefix @ ''/'' @ k8sDeviceName dev @ ''-size-max'' \<and>
      key \<noteq> prefix @ ''/'' @ k8sDeviceName dev @ ''-size-min''"
    by auto
  from Cons.IH [OF run rest] labelMin_other [OF k(2)] labelMax_other [OF k(1)]
  show ?case by simp
qed

lemma labelDevices_total:
  "\<forall>a \<in> snd ` set dl. a < length (devices s) \<Longrightarrow> \<exists>st'. labelDevices prefix s dl st = Inr st'"
proof (induction dl arbitrary: st)
  case Nil
  then show ?case by simp
next
  case (Cons p dl)
  obtain model a where p: "p = (model, a)" by (cases p)
  from Cons.prems p have a: "deref s a = Some (devices s ! a)"
    by (simp add: deref_def)
  from Cons.prems have "\<forall>a \<in> snd ` set dl. a < length (devices s)" by simp
  from Cons.IH [OF this] show ?case using p a by simp
qed

text \<open>The size labels of a device whose label name no other device of the list has.\<close>

lemma labelDevices_own:
  assumes "labelDevices prefix s dl st = Inr st'"
    and "(model, a) \<in> set dl" and "deref s a = Some dev"
    and "distinct (map (\<lambda>(model, a). map_option k8sDeviceName (deref s a)) dl)"
  shows "fst st' (prefix @ ''/'' @ k8sDeviceName dev @ ''-size-max'')
           = map_option Itoa (maxDeviceCount dev) \<and>
         writesOn (prefix @ ''/'' @ k8sDeviceName dev @ ''-size-max'') (snd st') =
           writesOn (prefix @ ''/'' @ k8sDeviceName dev @ ''-size-max'') (snd st) @
           sizeLabelWrites (prefix @ ''/'' @ k8sDeviceName dev @ ''-size-max'') (maxDeviceCount dev)
       (labelValue (fst st) (prefix @ ''/'' @ k8sDeviceName dev @ ''-size-max'')) \<and>
         fst st' (prefix @ ''/'' @ k8sDeviceName dev @ ''-size-min'')
           = map_option Itoa (minDeviceCount dev) \<and>
         writesOn (prefix @ ''/'' @ k8sDeviceName dev @ ''-size-min'') (snd st') =
           writesOn (prefix @ ''/'' @ k8sDeviceName dev @ ''-size-min'') (snd st) @
           sizeLabelWrites (prefix @ ''/'' @ k8sDeviceName dev @ ''-size-min'') (minDeviceCount dev)
       (labelValue (fst st) (prefix @ ''/'' @ k8sDeviceName dev @ ''-size-min''))"
  using assms
proof (induction dl arbitrary: st)
  case Nil
  then show ?case by simp
next
  case (Cons p dl)
  let ?max = "prefix @ ''/'' @ k8sDeviceName dev @ ''-size-max''"
  let ?min = "prefix @ ''/'' @ k8sDeviceName dev @ ''-size-min''"
  obtain model0 a0 where p: "p = (model0, a0)" by (cases p)
  from Cons.prems(1) p obtain dev0 where dev0: "deref s a0 = Some dev0"
    and run: "labelDevices prefix s dl (labelMin prefix dev0 (labelMax prefix dev0 st)) = Inr st'"
    by (auto split: option.splits)
  let ?st1 = "labelMin prefix dev0 (labelMax prefix dev0 st)"
  from Cons.prems(4) p dev0
  have fresh: "Some (k8sDeviceName dev0) \<notin> (\<lambda>(model, a). map_option k8sDeviceName (deref s a)) ` set dl"
    and dist: "distinct (map (\<lambda>(model, a). map_option k8sDeviceName (deref s a)) dl)"
    by auto
  show ?case
  proof (cases "(model, a) \<in> set dl")
    case True
    then have "Some (k8sDeviceName dev) \<in> (\<lambda>(model, a). map_option k8sDeviceName (deref s a)) ` set dl"
      using Cons.prems(3) by force
    with fresh have ne: "k8sDeviceName dev \<noteq> k8sDeviceName dev0" by auto
    have k: "?max \<noteq> prefix @ ''/'' @ k8sDeviceName dev0 @ ''-size-max''"
      "?max \<noteq> prefix @ ''/'' @ k8sDeviceName dev0 @ ''-size-min''"
      "?min \<noteq> prefix @ ''/'' @ k8sDeviceName dev0 @ ''-size-max''"
      "?min \<noteq> prefix @ ''/'' @ k8sDeviceName dev0 @ ''-size-min''"
      using ne max_key_not_min_key [of prefix "k8sDeviceName dev" "k8sDeviceName dev0"]
        max_key_not_min_key [of prefix "k8sDeviceName dev0" "k8sDeviceName dev"]
      by (simp_all add: append_eq_append_conv)
    have keep: "fst ?st1 ?max = fst st ?max" "writesOn ?max (snd ?st1) = writesOn ?max (snd st)"
      "fst ?st1 ?min = fst st ?min" "writesOn ?min (snd ?st1) = writesOn ?min (snd st)"
      using labelMax_other [OF k(1), of st] labelMin_other [OF k(2), of "labelMax prefix dev0 st"]
        labelMax_other [OF k(3), of st] labelMin_other [OF k(4), of "labelMax prefix dev0 st"]
      by simp_all
    from Cons.IH [OF run True Cons.prems(3) dist] keep
    show ?thesis by (simp add: labelValue_def)
  next
    case False
    with Cons.prems(2) p have here: "model0 = model" "a0 = a" by auto
    with dev0 Cons.prems(3) have same: "dev0 = dev" by simp
    have away: "\<forall>(model', a') \<in> set dl. \<forall>dev'. deref s a' = Some dev' \<longrightarrow>
        key \<noteq> prefix @ ''/'' @ k8sDeviceName dev' @ ''-size-max'' \<and>
        key \<noteq> prefix @ ''/'' @ k8sDeviceName dev' @ ''-size-min''"
      if "key = ?max \<or> key = ?min" for key
    proof (intro ballI, clarify)
      fix model' a' dev'
      assume in_dl: "(model', a') \<in> set dl" and d': "deref s a' = Some dev'"
      then have "Some (k8sDeviceName dev') \<in> (\<lambda>(model, a). map_option k8sDeviceName (deref s a)) ` set dl"
        by force
      with fresh same have ne: "k8sDeviceName dev' \<noteq> k8sDeviceName dev" by auto
      show "key \<noteq> prefix @ ''/'' @ k8sDeviceName dev' @ ''-size-max'' \<and>
        key \<noteq> prefix @ ''/'' @ k8sDeviceName dev' @ ''-size-min''"
        using that ne by (auto simp: append_eq_append_conv)
    qed
    have after_max: "fst st' ?max = fst ?st1 ?max \<and> writesOn ?max (snd st') = writesOn ?max (snd ?st1)"
      by (rule labelDevices_other [OF run away]) simp
    have after_min: "fst st' ?min = fst ?st1 ?min \<and> writesOn ?min (snd st') = writesOn ?min (snd ?st1)"
      by (rule labelDevices_other [OF run away]) simp
    have mm: "?max \<noteq> ?min" by (rule max_key_not_min_key)
    have max1: "fst ?st1 ?max = fst (labelMax prefix dev st) ?max"
      "writesOn ?max (snd ?st1) = writesOn ?max (snd (labelMax prefix dev st))"
      using labelMin_other [OF mm, of "labelMax prefix dev st"] same by simp_all
    have min0: "labelValue (fst (labelMax prefix dev st)) ?min = labelValue (fst st) ?min"
      "writesOn ?min (snd (labelMax prefix dev st)) = writesOn ?min (snd st)"
      using labelMax_other [OF mm [symmetric], of st] by (simp_all add: labelValue_def)
    show ?thesis
      using after_max after_min max1 min0 labelMax_own [of prefix dev st]
        labelMin_own [of prefix dev "labelMax prefix dev st"] same
      by simp
  qed
qed


text \<open>The writes of the step on one device, whatever the other devices are.\<close>

lemma step_writes:
  "snd (labelMax prefix dev st) =
     snd st @ sizeLabelWrites (prefix @ ''/'' @ k8sDeviceName dev @ ''-size-max'') (maxDeviceCount dev)
       (labelValue (fst st) (prefix @ ''/'' @ k8sDeviceName dev @ ''-size-max''))"
  "snd (labelMin prefix dev st) =
     snd st @ sizeLabelWrites (prefix @ ''/'' @ k8sDeviceName dev @ ''-size-min'') (minDeviceCount dev)
       (labelValue (fst st) (prefix @ ''/'' @ k8sDeviceName dev @ ''-size-min''))"
  by (auto simp: labelMax_def labelMin_def setLabel_def deleteLabel_def sizeLabelWrites_def Let_def
      split: option.splits)

lemma manageCDINodeLabel_each:
  "manageCDINodeLabel env m s machines = Inr updates \<Longrightarrow> mach \<in> set machines \<Longrightarrow>
   GetNode env (nodeName mach) = Inr (Some node) \<Longrightarrow>
   \<exists>node' writes. labelNode m s mach node = Inr (node', writes) \<and> (node', writes) \<in> set updates"
proof (induction machines arbitrary: updates)
  case Nil
  then show ?case by simp
next
  case (Cons mach0 rest)
  show ?case
  proof (cases "GetNode env (nodeName mach0)")
    case (Inl err)
    with Cons.prems(1) show ?thesis by simp
  next
    case (Inr found)
    show ?thesis
    proof (cases found)
      case None
      with Inr Cons.prems have run: "manageCDINodeLabel env m s rest = Inr updates"
        and "mach \<in> set rest"
        by auto
      then show ?thesis using Cons.IH Cons.prems(3) by blast
    next
      case (Some node0)
      with Inr Cons.prems(1) obtain node1 writes1 updates1
        where l: "labelNode m s mach0 node0 = Inr (node1, writes1)"
          and run: "manageCDINodeLabel env m s rest = Inr updates1"
          and res: "updates = (node1, writes1) # updates1"
        by (auto split: sum.splits option.splits)
      show ?thesis
      proof (cases "mach = mach0")
        case True
        with Inr Some Cons.prems(3) have "node = node0" by simp
        with True l res show ?thesis by simp
      next
        case False
        with Cons.prems(2) have "mach \<in> set rest" by simp
        from Cons.IH [OF run this Cons.prems(3)] res show ?thesis by auto
      qed
    qed
  qed
qed

text \<open>
  Claim C6. For a machine whose node was found, with the node's label map \<open>labels\<close>: the
  fabric label is written once with the fabric id of the machine, whatever its value
  was, and nothing else is written without node-group mode. With node-group mode, for
  each device of the machine (the label names of the devices being distinct) the
  max-size label ends as the bound, written only when the node's value differed, or is
  deleted when there is no bound; the min-size label follows the same rule. A pass whose
  label sync succeeds has sent the node with these labels to the update call.
\<close>

theorem label_sync:
  assumes node: "Labels node = Some labels"
    and alloc: "\<forall>a \<in> snd ` set (deviceList mach). a < length (devices s)"
  shows "\<exists>node' writes labels'.
      labelNode m s mach node = Inr (node', writes) \<and> Labels node' = Some labels' \<and>
      labels' (labelPrefix m @ ''/'' @ ''fabric'') = Some (Itoa (fabricID mach)) \<and>
      writesOn (labelPrefix m @ ''/'' @ ''fabric'') writes =
        [SetLabel (labelPrefix m @ ''/'' @ ''fabric'') (Itoa (fabricID mach))] \<and>
      (\<not> useCM (cdiOptions m) \<longrightarrow>
         writes = [SetLabel (labelPrefix m @ ''/'' @ ''fabric'') (Itoa (fabricID mach))]) \<and>
      (useCM (cdiOptions m) \<and>
       distinct (map (\<lambda>(model, a). map_option k8sDeviceName (deref s a)) (deviceList mach)) \<longrightarrow>
         (\<forall>(model, a) \<in> set (deviceList mach). \<forall>dev. deref s a = Some dev \<longrightarrow>
            labels' (labelPrefix m @ ''/'' @ k8sDeviceName dev @ ''-size-max'')
              = map_option Itoa (maxDeviceCount dev) \<and>
            writesOn (labelPrefix m @ ''/'' @ k8sDeviceName dev @ ''-size-max'') writes =
              sizeLabelWrites (labelPrefix m @ ''/'' @ k8sDeviceName dev @ ''-size-max'')
                (maxDeviceCount dev)
                (labelValue labels (labelPrefix m @ ''/'' @ k8sDeviceName dev @ ''-size-max'')) \<and>
            labels' (labelPrefix m @ ''/'' @ k8sDeviceName dev @ ''-size-min'')
              = map_option Itoa (minDeviceCount dev) \<and>
            writesOn (labelPrefix m @ ''/'' @ k8sDeviceName dev @ ''-size-min'') writes =
              sizeLabelWrites (labelPrefix m @ ''/'' @ k8sDeviceName dev @ ''-size-min'')
                (minDeviceCount dev)
                (labelValue labels (labelPrefix m @ ''/'' @ k8sDeviceName dev @ ''-size-min'')))) \<and>
      (\<forall>updates machines env.
         manageCDINodeLabel env m s machines = Inr updates \<and> mach \<in> set machines \<and>
         GetNode env (nodeName mach) = Inr (Some node) \<longrightarrow> (node', writes) \<in> set updates) \<and>
      (\<forall>dev st.
         snd (labelMax (labelPrefix m) dev st) =
           snd st @ sizeLabelWrites (labelPrefix m @ ''/'' @ k8sDeviceName dev @ ''-size-max'')
                      (maxDeviceCount dev)
                      (labelValue (fst st) (labelPrefix m @ ''/'' @ k8sDeviceName dev @ ''-size-max'')) \<and>
         snd (labelMin (labelPrefix m) dev st) =
           snd st @ sizeLabelWrites (labelPrefix m @ ''/'' @ k8sDeviceName dev @ ''-size-min'')
                      (minDeviceCount dev)
                      (labelValue (fst st) (labelPrefix m @ ''/'' @ k8sDeviceName dev @ ''-size-min'')))"
proof -
  let ?fk = "labelPrefix m @ ''/'' @ ''fabric''"
  let ?st0 = "setLabel ?fk (Itoa (fabricID mach)) (labels, [])"
  have st0: "fst ?st0 ?fk = Some (Itoa (fabricID mach))"
    "writesOn ?fk (snd ?st0) = [SetLabel ?fk (Itoa (fabricID mach))]"
    "snd ?st0 = [SetLabel ?fk (Itoa (fabricID mach))]"
    by (simp_all add: setLabel_def writesOn_def)
  have st0_size: "labelValue (fst ?st0) (labelPrefix m @ ''/'' @ n @ sfx) = labelValue labels (labelPrefix m @ ''/'' @ n @ sfx)
      \<and> writesOn (labelPrefix m @ ''/'' @ n @ sfx) (snd ?st0) = []"
    if "sfx = ''-size-max'' \<or> sfx = ''-size-min''" for n sfx
    using that fabric_key_not_size_key [of "labelPrefix m" n]
    by (auto simp: setLabel_def writesOn_def labelValue_def)
  obtain st' where run: "(if useCM (cdiOptions m)
        then labelDevices (labelPrefix m) s (deviceList mach) ?st0 else Inr ?st0) = Inr st'"
    using labelDevices_total [OF alloc, of "labelPrefix m" ?st0] by (cases "useCM (cdiOptions m)") auto
  let ?node' = "node\<lparr>Labels := Some (fst st')\<rparr>"
  have res: "labelNode m s mach node = Inr (?node', snd st')"
  proof (cases "useCM (cdiOptions m)")
    case True
    with run have "labelDevices (labelPrefix m) s (deviceList mach) ?st0 = Inr st'" by simp
    then show ?thesis using node True by (simp add: labelNode_def Let_def split_beta)
  next
    case False
    with run have "?st0 = st'" by simp
    then show ?thesis using node False by (simp add: labelNode_def Let_def split_beta)
  qed
  have fab: "fst st' ?fk = fst ?st0 ?fk \<and> writesOn ?fk (snd st') = writesOn ?fk (snd ?st0)"
  proof (cases "useCM (cdiOptions m)")
    case True
    with run have r: "labelDevices (labelPrefix m) s (deviceList mach) ?st0 = Inr st'" by simp
    show ?thesis
      by (rule labelDevices_other [OF r]) (use fabric_key_not_size_key in blast)
  next
    case False
    with run show ?thesis by simp
  qed
  have sizes: "fst st' (labelPrefix m @ ''/'' @ k8sDeviceName dev @ ''-size-max'')
              = map_option Itoa (maxDeviceCount dev) \<and>
            writesOn (labelPrefix m @ ''/'' @ k8sDeviceName dev @ ''-size-max'') (snd st') =
              sizeLabelWrites (labelPrefix m @ ''/'' @ k8sDeviceName dev @ ''-size-max'')
                (maxDeviceCount dev)
                (labelValue labels (labelPrefix m @ ''/'' @ k8sDeviceName dev @ ''-size-max'')) \<and>
            fst st' (labelPrefix m @ ''/'' @ k8sDeviceName dev @ ''-size-min'')
              = map_option Itoa (minDeviceCount dev) \<and>
            writesOn (labelPrefix m @ ''/'' @ k8sDeviceName dev @ ''-size-min'') (snd st') =
              sizeLabelWrites (labelPrefix m @ ''/'' @ k8sDeviceName dev @ ''-size-min'')
                (minDeviceCount dev)
                (labelValue labels (labelPrefix m @ ''/'' @ k8sDeviceName dev @ ''-size-min''))"
    if cm: "useCM (cdiOptions m)"
      and dist: "distinct (map (\<lambda>(model, a). map_option k8sDeviceName (deref s a)) (deviceList mach))"
      and mem: "(model, a) \<in> set (deviceList mach)" and dev: "deref s a = Some dev"
    for model a dev
  proof -
    from cm run have r: "labelDevices (labelPrefix m) s (deviceList mach) ?st0 = Inr st'" by simp
    from labelDevices_own [OF r mem dev dist]
      st0_size [of "''-size-max''" "k8sDeviceName dev"] st0_size [of "''-size-min''" "k8sDeviceName dev"]
    show ?thesis by simp
  qed
  have link: "(?node', snd st') \<in> set updates"
    if "manageCDINodeLabel env m s machines = Inr updates" and "mach \<in> set machines"
      and "GetNode env (nodeName mach) = Inr (Some node)" for updates machines env
    using manageCDINodeLabel_each [OF that] res by simp
  show ?thesis
  proof (intro exI conjI impI allI)
    show "labelNode m s mach node = Inr (?node', snd st')" by (rule res)
    show "Labels ?node' = Some (fst st')" by simp
    show "fst st' ?fk = Some (Itoa (fabricID mach))" using fab st0(1) by simp
    show "writesOn ?fk (snd st') = [SetLabel ?fk (Itoa (fabricID mach))]" using fab st0(2) by simp
    show "snd st' = [SetLabel ?fk (Itoa (fabricID mach))]" if "\<not> useCM (cdiOptions m)"
      using that run st0(3) by simp
    show "\<forall>(model, a) \<in> set (deviceList mach). \<forall>dev. deref s a = Some dev \<longrightarrow>
            fst st' (labelPrefix m @ ''/'' @ k8sDeviceName dev @ ''-size-max'')
              = map_option Itoa (maxDeviceCount dev) \<and>
            writesOn (labelPrefix m @ ''/'' @ k8sDeviceName dev @ ''-size-max'') (snd st') =
              sizeLabelWrites (labelPrefix m @ ''/'' @ k8sDeviceName dev @ ''-size-max'')
                (maxDeviceCount dev)
                (labelValue labels (labelPrefix m @ ''/'' @ k8sDeviceName dev @ ''-size-max'')) \<and>
            fst st' (labelPrefix m @ ''/'' @ k8sDeviceName dev @ ''-size-min'')
              = map_option Itoa (minDeviceCount dev) \<and>
            writesOn (labelPrefix m @ ''/'' @ k8sDeviceName dev @ ''-size-min'') (snd st') =
              sizeLabelWrites (labelPrefix m @ ''/'' @ k8sDeviceName dev @ ''-size-min'')
                (minDeviceCount dev)
                (labelValue labels (labelPrefix m @ ''/'' @ k8sDeviceName dev @ ''-size-min''))"
      if "useCM (cdiOptions m) \<and>
          distinct (map (\<lambda>(model, a). map_option k8sDeviceName (deref s a)) (deviceList mach))"
      using that sizes by blast
    show "(?node', snd st') \<in> set updates"
      if "manageCDINodeLabel env m s machines = Inr updates \<and> mach \<in> set machines \<and>
          GetNode env (nodeName mach) = Inr (Some node)" for updates machines env
      using that link by blast
    show "snd (labelMax (labelPrefix m) dev st) =
           snd st @ sizeLabelWrites (labelPrefix m @ ''/'' @ k8sDeviceName dev @ ''-size-max'')
                      (maxDeviceCount dev)
                      (labelValue (fst st) (labelPrefix m @ ''/'' @ k8sDeviceName dev @ ''-size-max''))"
      for dev st
      by (rule step_writes)
    show "snd (labelMin (labelPrefix m) dev st) =
           snd st @ sizeLabelWrites (labelPrefix m @ ''/'' @ k8sDeviceName dev @ ''-size-min'')
                      (minDeviceCount dev)
                      (labelValue (fst st) (labelPrefix m @ ''/'' @ k8sDeviceName dev @ ''-size-min''))"
      for dev st
      by (rule step_writes)
  qed
qed

theorem label_sync_witness:
  "\<exists>node' writes labels'.
     labelNode
       \<lparr>namedDriverResources = [], deviceInfos = [], labelPrefix = ''cohdi.io'',
        cdiOptions = \<lparr>useCapiBmh = False, useCM = True, bindingTimeoutOpt = None\<rparr>\<rparr>
       \<lparr>devices = [\<lparr>k8sDeviceName = ''dev1'', driverName = ''d1'', draAttributes = None,
                     availableDeviceCount = 4, minDeviceCount = None, maxDeviceCount = Some 8,
                     bindingTimeout = None\<rparr>],
        attrMaps = []\<rparr>
       \<lparr>nodeName = ''node-M1'', machineUUID = ''M1'', fabricID = 3,
        deviceList = [(''DEVICE 1'', 0)], nodeGroupUUID = ''G1''\<rparr>
       \<lparr>NodeObjectName = ''node-M1'',
        Labels = Some [''cohdi.io/fabric'' \<mapsto> ''3'', ''cohdi.io/dev1-size-max'' \<mapsto> ''8'',
                       ''cohdi.io/dev1-size-min'' \<mapsto> ''1'']\<rparr>
       = Inr (node', writes) \<and>
     Labels node' = Some labels' \<and>
     labels' ''cohdi.io/fabric'' = Some ''3'' \<and>
     writesOn ''cohdi.io/fabric'' writes = [SetLabel ''cohdi.io/fabric'' ''3''] \<and>
     labels' ''cohdi.io/dev1-size-max'' = Some ''8'' \<and>
     writesOn ''cohdi.io/dev1-size-max'' writes = [] \<and>
     labels' ''cohdi.io/dev1-size-min'' = None \<and>
     writesOn ''cohdi.io/dev1-size-min'' writes = [DeleteLabel ''cohdi.io/dev1-size-min'']"
proof -
  let ?m = "\<lparr>namedDriverResources = [], deviceInfos = [], labelPrefix = ''cohdi.io'',
        cdiOptions = \<lparr>useCapiBmh = False, useCM = True, bindingTimeoutOpt = None\<rparr>\<rparr>"
  let ?dev = "\<lparr>k8sDeviceName = ''dev1'', driverName = ''d1'', draAttributes = None,
                     availableDeviceCount = 4, minDeviceCount = None, maxDeviceCount = Some 8,
                     bindingTimeout = None\<rparr>"
  let ?s = "\<lparr>devices = [?dev], attrMaps = []\<rparr>"
  let ?mach = "\<lparr>nodeName = ''node-M1'', machineUUID = ''M1'', fabricID = 3,
        deviceList = [(''DEVICE 1'', 0)], nodeGroupUUID = ''G1''\<rparr>"
  let ?labels = "[''cohdi.io/fabric'' \<mapsto> ''3'', ''cohdi.io/dev1-size-max'' \<mapsto> ''8'',
                       ''cohdi.io/dev1-size-min'' \<mapsto> ''1'']"
  let ?node = "\<lparr>NodeObjectName = ''node-M1'', Labels = Some ?labels\<rparr>"
  have h1: "Labels ?node = Some ?labels" by simp
  have h2: "\<forall>a \<in> snd ` set (deviceList ?mach). a < length (devices ?s)" by simp
  have d: "deref ?s 0 = Some ?dev" by (simp add: deref_def)
  from label_sync [OF h1 h2, of ?m]
  obtain node' writes labels' where run: "labelNode ?m ?s ?mach ?node = Inr (node', writes)"
    and lab: "Labels node' = Some labels'"
    and fab: "labels' (labelPrefix ?m @ ''/'' @ ''fabric'') = Some (Itoa (fabricID ?mach))"
      "writesOn (labelPrefix ?m @ ''/'' @ ''fabric'') writes =
        [SetLabel (labelPrefix ?m @ ''/'' @ ''fabric'') (Itoa (fabricID ?mach))]"
    and sz: "useCM (cdiOptions ?m) \<and>
       distinct (map (\<lambda>(model, a). map_option k8sDeviceName (deref ?s a)) (deviceList ?mach)) \<longrightarrow>
         (\<forall>(model, a) \<in> set (deviceList ?mach). \<forall>dev. deref ?s a = Some dev \<longrightarrow>
            labels' (labelPrefix ?m @ ''/'' @ k8sDeviceName dev @ ''-size-max'')
              = map_option Itoa (maxDeviceCount dev) \<and>
            writesOn (labelPrefix ?m @ ''/'' @ k8sDeviceName dev @ ''-size-max'') writes =
              sizeLabelWrites (labelPrefix ?m @ ''/'' @ k8sDeviceName dev @ ''-size-max'')
                (maxDeviceCount dev)
                (labelValue ?labels (labelPrefix ?m @ ''/'' @ k8sDeviceName dev @ ''-size-max'')) \<and>
            labels' (labelPrefix ?m @ ''/'' @ k8sDeviceName dev @ ''-size-min'')
              = map_option Itoa (minDeviceCount dev) \<and>
            writesOn (labelPrefix ?m @ ''/'' @ k8sDeviceName dev @ ''-size-min'') writes =
              sizeLabelWrites (labelPrefix ?m @ ''/'' @ k8sDeviceName dev @ ''-size-min'')
                (minDeviceCount dev)
                (labelValue ?labels (labelPrefix ?m @ ''/'' @ k8sDeviceName dev @ ''-size-min'')))"
    by blast
  from sz d have sizes: "labels' ''cohdi.io/dev1-size-max'' = Some ''8''"
    "writesOn ''cohdi.io/dev1-size-max'' writes = []"
    "labels' ''cohdi.io/dev1-size-min'' = None"
    "writesOn ''cohdi.io/dev1-size-min'' writes = [DeleteLabel ''cohdi.io/dev1-size-min'']"
    by (simp_all add: sizeLabelWrites_def labelValue_def)
  from fab have fabric: "labels' ''cohdi.io/fabric'' = Some ''3''"
    "writesOn ''cohdi.io/fabric'' writes = [SetLabel ''cohdi.io/fabric'' ''3'']"
    by simp_all
  from run lab fabric sizes show ?thesis by blast
qed

end
